theory Spec2Isabelle
  imports Main "HOL-Library.AList" "HOL-Library.Sublist"
begin

section \<open>Data model\<close>

text \<open>
  The two scripts of the repository, \<^verbatim>\<open>2025/migrate-to-react-18.js\<close> (the React
  migration) and the Node 22 migration, are sequences of steps over the file system, the
  terminal and external commands. The embedding makes these explicit:
  \<^item> a dependency group of a \<^verbatim>\<open>package.json\<close> (a JSON object from package names to
    range strings) is an association list in key order; \<^verbatim>\<open>deps[name]\<close> is \<open>map_of\<close>,
    an assignment to a key is \<open>AList.update\<close> (in place when the key exists, appended
    otherwise, as a JavaScript object does for string keys);
  \<^item> a group that the manifest does not have (\<^verbatim>\<open>undefined\<close>) is \<open>None\<close>;
  \<^item> a file is absent, unreadable as JSON, or parsed;
  \<^item> \<^verbatim>\<open>process.exit\<close> ends the run with its exit code, and so does the end of the
    terminal's input at a pending question, with exit code 0 (\<open>Exited\<close>); an uncaught
    exception is the outcome \<open>Crashed\<close>; a question on a terminal that stays open and
    silent is never answered, and the run never ends (\<open>Blocked\<close>);
  \<^item> every effect a statement below speaks of is an event of the run's trace: the step
    titles printed by \<^verbatim>\<open>stepBox\<close>, the external commands with their success, the writes of
    files, the questions asked on the terminal and the answers read.
  Values of dependency groups are strings, as in a well-formed manifest, and package
  names are not array indices, which a JavaScript object would enumerate first. A write
  of a file succeeds. Messages written by \<^verbatim>\<open>log.info\<close>, \<^verbatim>\<open>log.warn\<close> and the like are
  not part of the trace.
\<close>

type_synonym deps = "(string \<times> string) list"

record pkg =
  dependencies :: "deps option"
  devDependencies :: "deps option"
  peerDependencies :: "deps option"
  engines :: "deps option"

datatype manifest_file = Absent | Unparsable | Parsed pkg

text \<open>
  The manifest of an installed package, \<^verbatim>\<open>node_modules/<dep>/package.json\<close>: the file does
  not exist (\<open>NoFile\<close>), reading it, parsing it or reading its \<^verbatim>\<open>peerDependencies\<close>
  throws (\<open>Throws\<close>), or it parses and has the given \<^verbatim>\<open>peerDependencies\<close> (\<open>None\<close>
  when the field is missing).
\<close>

datatype installed = NoFile | Throws | Installed "deps option"

text \<open>A string read from the terminal, as UTF-16 code units.\<close>

type_synonym utf16 = "nat list"

text \<open>
  What the standard input delivers to the script, read by read: data that holds a first
  line and maybe more lines (a terminal delivers one line at a time, a pipe or a file
  whatever is buffered), followed by what it delivers next; or the input is at its end
  (\<open>Eof\<close>: the pipe or file is used up, or the operator types end-of-file); or the input
  stays open and nothing comes any more (\<open>Idle\<close>: a terminal on which nobody types).
\<close>

datatype input = Data utf16 "utf16 list" input | Eof | Idle

datatype event =
    Step string
  | Exec string bool
  | WriteManifest pkg
  | WriteFile string string
  | Ask
  | Answer utf16
  | EndOfInput

datatype outcome = Exited nat | Crashed | Blocked

text \<open>
  The file system as far as the scripts look at it: \<^verbatim>\<open>package.json\<close> in the working
  directory, the manifests under \<^verbatim>\<open>node_modules\<close>, and, for the Node 22 migration, the
  \<^verbatim>\<open>package.json\<close> next to the script, the workflow files and the Dockerfiles. The state
  of a run adds the lines that the operator will type and the trace so far.

  A step either returns with the new state or ends the process with an outcome, in the
  state reached.
\<close>

record fsys =
  manifest :: manifest_file
  node_modules :: "string \<Rightarrow> installed"
  module_manifest :: manifest_file
  workflows :: "(string \<times> string) list option"
  dockerfiles :: "(string \<times> string) list"

record state =
  fs :: fsys
  stdin :: input
  trace :: "event list"

datatype res = Ret state | End outcome state

fun andThen :: "res \<Rightarrow> (state \<Rightarrow> res) \<Rightarrow> res" where
  "andThen (Ret s) f = f s"
| "andThen (End out s) f = End out s"

fun final_state :: "res \<Rightarrow> state" where
  "final_state (Ret s) = s"
| "final_state (End out s) = s"

text \<open>
  An external command (\<^verbatim>\<open>execSync\<close>) succeeds or throws, and may change the file system;
  what it does is an input of the model.
\<close>

type_synonym shell = "string \<Rightarrow> fsys \<Rightarrow> bool \<times> fsys"

definition exec :: "shell \<Rightarrow> string \<Rightarrow> state \<Rightarrow> bool \<times> state" where
  "exec sh cmd st =
     (case sh cmd (fs st) of
        (ok, fs') \<Rightarrow> (ok, st\<lparr>fs := fs', trace := trace st @ [Exec cmd ok]\<rparr>))"

definition stepBox :: "string \<Rightarrow> state \<Rightarrow> state" where
  "stepBox title st = st\<lparr>trace := trace st @ [Step title]\<rparr>"

section \<open>JavaScript strings and objects\<close>

text \<open>\<^verbatim>\<open>s.startsWith(p)\<close>, also the regular expression \<^verbatim>\<open>/^p/\<close> for a literal \<open>p\<close>.\<close>

fun startsWith :: "string \<Rightarrow> string \<Rightarrow> bool" where
  "startsWith s [] = True"
| "startsWith [] (p # ps) = False"
| "startsWith (c # s) (p # ps) = (c = p \<and> startsWith s ps)"

text \<open>\<^verbatim>\<open>/p/.test(s)\<close> for a literal \<open>p\<close>: the pattern occurs somewhere in \<open>s\<close>.\<close>

fun regex_test :: "string \<Rightarrow> string \<Rightarrow> bool" where
  "regex_test p [] = startsWith [] p"
| "regex_test p (c # s) = (startsWith (c # s) p \<or> regex_test p s)"

text \<open>Truthiness of \<^verbatim>\<open>obj[key]\<close> for string values: defined and not the empty string.\<close>

fun truthy :: "string option \<Rightarrow> bool" where
  "truthy None = False"
| "truthy (Some v) = (v \<noteq> [])"

text \<open>\<^verbatim>\<open>obj || {}\<close>\<close>

fun orEmpty :: "deps option \<Rightarrow> deps" where
  "orEmpty None = []"
| "orEmpty (Some d) = d"

text \<open>
  \<^verbatim>\<open>{ ...a, ...b }\<close>: the entries of \<open>a\<close>, then those of \<open>b\<close>, a later value for a key
  replacing the earlier one in place.
\<close>

definition spread :: "deps option \<Rightarrow> deps option \<Rightarrow> deps" where
  "spread a b = foldl (\<lambda>m (k, v). AList.update k v m) [] (orEmpty a @ orEmpty b)"

section \<open>The React migration: manifest edits\<close>

definition TARGET_VERSIONS :: deps where
  "TARGET_VERSIONS =
     [(''react'', ''^18.3.1''),
      (''react-dom'', ''^18.3.1''),
      (''@testing-library/react'', ''^14.0.0''),
      (''react-test-renderer'', ''^18.3.1'')]"

definition ignoreWarningsFor :: "string list" where
  "ignoreWarningsFor = [''react-test-renderer'']"

definition loadPackageJson :: "state \<Rightarrow> outcome + pkg" where
  "loadPackageJson st =
     (case manifest (fs st) of
        Absent \<Rightarrow> Inl (Exited 1)
      | Unparsable \<Rightarrow> Inl Crashed
      | Parsed p \<Rightarrow> Inr p)"

definition savePackageJson :: "pkg \<Rightarrow> state \<Rightarrow> state" where
  "savePackageJson data st =
     st\<lparr>fs := (fs st)\<lparr>manifest := Parsed data\<rparr>, trace := trace st @ [WriteManifest data]\<rparr>"

definition updateDeps :: "deps option \<Rightarrow> string \<Rightarrow> string \<Rightarrow> deps option" where
  "updateDeps deps name version =
     (case deps of
        None \<Rightarrow> None
      | Some d \<Rightarrow> if truthy (map_of d name) then Some (AList.update name version d) else Some d)"

definition updateAllGroups :: "pkg \<Rightarrow> string \<times> string \<Rightarrow> pkg" where
  "updateAllGroups p nv =
     (case nv of (name, version) \<Rightarrow>
        p\<lparr>dependencies := updateDeps (dependencies p) name version,
          devDependencies := updateDeps (devDependencies p) name version,
          peerDependencies := updateDeps (peerDependencies p) name version\<rparr>)"

definition coreUpdated :: "pkg \<Rightarrow> pkg" where
  "coreUpdated p = foldl updateAllGroups p TARGET_VERSIONS"

definition updateCoreReactDeps :: "state \<Rightarrow> res" where
  "updateCoreReactDeps st =
     (case loadPackageJson st of
        Inl out \<Rightarrow> End out st
      | Inr p \<Rightarrow> Ret (savePackageJson (coreUpdated p) st))"

text \<open>
  \<^verbatim>\<open>syncRplanPeerDepsToInstalled\<close>: the loop runs over the keys of \<open>allDeps\<close> and reads
  \<^verbatim>\<open>allDeps[dep]\<close>, that is, over its entries.
\<close>

definition syncOne :: "deps \<Rightarrow> string \<times> string \<Rightarrow> deps" where
  "syncOne peers kv =
     (case kv of (dep, v) \<Rightarrow>
        if startsWith dep ''@rplan/'' \<and> truthy (map_of peers dep)
        then AList.update dep v peers else peers)"

definition peersSynced :: "pkg \<Rightarrow> pkg" where
  "peersSynced p =
     (let allDeps = spread (dependencies p) (devDependencies p)
      in p\<lparr>peerDependencies := Some (foldl syncOne (orEmpty (peerDependencies p)) allDeps)\<rparr>)"

definition syncRplanPeerDepsToInstalled :: "state \<Rightarrow> res" where
  "syncRplanPeerDepsToInstalled st =
     (case loadPackageJson st of
        Inl out \<Rightarrow> End out st
      | Inr p \<Rightarrow> Ret (savePackageJson (peersSynced p) st))"

definition ensureNCU :: "shell \<Rightarrow> state \<Rightarrow> res" where
  "ensureNCU sh st =
     (case exec sh ''ncu -v'' st of
        (True, s1) \<Rightarrow> Ret s1
      | (False, s1) \<Rightarrow>
          (case exec sh ''npm install -g npm-check-updates'' s1 of
             (True, s2) \<Rightarrow> Ret s2
           | (False, s2) \<Rightarrow> End (Exited 1) s2))"

definition ncu_rplan_cmd :: string where
  \<open>ncu_rplan_cmd = ''ncu "/@rplan'' @ [CHR 0x5C] @ ''/.*/" -u''\<close>

definition updateRplanDepsWithNCU :: "shell \<Rightarrow> state \<Rightarrow> res" where
  "updateRplanDepsWithNCU sh st = (case exec sh ncu_rplan_cmd st of (ok, s1) \<Rightarrow> Ret s1)"

section \<open>The operator prompt\<close>

text \<open>
  \<^verbatim>\<open>rl.question\<close>: the question is printed and the callback waits for a line.
  \<^item> Data arrives: the callback gets the first line (\<open>Got\<close>). The further lines of the
    same data are emitted while no question is pending, in the React migration on an
    interface that the callback has closed: they are lost, and the next question reads
    what the input delivers next.
  \<^item> The input ends: the interface closes and the callback is never called (\<open>Closed\<close>).
    The promise that the caller awaits is never settled, nothing is left to do, and the
    process ends with exit code 0 where it stands.
  \<^item> Nothing comes and the input stays open (\<open>Silent\<close>): the caller waits for ever.
\<close>

datatype 'a reply = Got 'a | Closed | Silent

definition question :: "state \<Rightarrow> utf16 reply \<times> state" where
  "question st =
     (case stdin st of
        Data a others rest \<Rightarrow>
          (Got a, st\<lparr>stdin := rest, trace := trace st @ [Ask, Answer a]\<rparr>)
      | Eof \<Rightarrow> (Closed, st\<lparr>trace := trace st @ [Ask, EndOfInput]\<rparr>)
      | Idle \<Rightarrow> (Silent, st\<lparr>trace := trace st @ [Ask]\<rparr>))"

text \<open>The white space and line terminators that \<^verbatim>\<open>String.prototype.trim\<close> removes.\<close>

definition isWhiteSpace :: "nat \<Rightarrow> bool" where
  "isWhiteSpace u =
     (u \<in> {9, 10, 11, 12, 13, 32, 160, 5760, 8232, 8233, 8239, 8287, 12288, 65279}
      \<or> (8192 \<le> u \<and> u \<le> 8202))"

definition trim :: "utf16 \<Rightarrow> utf16" where
  "trim s = rev (dropWhile isWhiteSpace (rev (dropWhile isWhiteSpace s)))"

text \<open>
  A lower-case ASCII letter of a pattern with the flag \<^verbatim>\<open>i\<close> matches itself and its
  upper-case form.
\<close>

definition matches_ci :: "char \<Rightarrow> nat \<Rightarrow> bool" where
  "matches_ci c u = (u = of_char c \<or> u + 32 = of_char c)"

text \<open>\<^verbatim>\<open>/^y(es)?$/i.test(answer.trim())\<close>\<close>

definition affirmative :: "utf16 \<Rightarrow> bool" where
  "affirmative answer =
     (case trim answer of
        [a] \<Rightarrow> matches_ci CHR ''y'' a
      | [a, b, c] \<Rightarrow> matches_ci CHR ''y'' a \<and> matches_ci CHR ''e'' b \<and> matches_ci CHR ''s'' c
      | _ \<Rightarrow> False)"

definition promptContinue :: "state \<Rightarrow> bool reply \<times> state" where
  "promptContinue st = (case question st of (a, s) \<Rightarrow> (map_reply affirmative a, s))"

section \<open>The compatibility gates\<close>

datatype issue = Issue (issue_name: string) (issue_peer: string) (issue_required: string)

text \<open>The body of the loop over the anchor keys (lines 119-129 and 173-183).\<close>

fun checkPeer :: "string \<Rightarrow> deps \<Rightarrow> string \<Rightarrow> issue list" where
  "checkPeer dep peer key =
     (case map_of peer key of
        None \<Rightarrow> []
      | Some r \<Rightarrow>
          if r \<noteq> [] then
            (if regex_test ''17.'' r \<and> \<not> regex_test ''18'' r then [Issue dep key r] else [])
          else [])"

text \<open>
  The \<^verbatim>\<open>try\<close> block of one dependency: a missing file is skipped by \<^verbatim>\<open>continue\<close>, an
  exception is caught (and a warning logged); neither pushes an issue.
\<close>

definition inspectDep :: "(string \<Rightarrow> installed) \<Rightarrow> string list \<Rightarrow> string \<Rightarrow> issue list" where
  "inspectDep nm keys dep =
     (case nm dep of
        NoFile \<Rightarrow> []
      | Throws \<Rightarrow> []
      | Installed peers \<Rightarrow> concat (map (checkPeer dep (orEmpty peers)) keys))"

text \<open>
  The end of both gates (lines 134-148 and 188-203), the same code up to the messages.
\<close>

definition confirm :: "issue list \<Rightarrow> state \<Rightarrow> res" where
  "confirm issues st =
     (if length issues > 0 then
        (case promptContinue st of
           (Got cont, s) \<Rightarrow> if \<not> cont then End (Exited 1) s else Ret s
         | (Closed, s) \<Rightarrow> End (Exited 0) s
         | (Silent, s) \<Rightarrow> End Blocked s)
      else Ret st)"

definition rplanDeps :: "pkg \<Rightarrow> string list" where
  "rplanDeps p =
     filter (\<lambda>n. startsWith n ''@rplan/'') (map fst (spread (dependencies p) (devDependencies p)))"

definition rplanIssues :: "pkg \<Rightarrow> (string \<Rightarrow> installed) \<Rightarrow> issue list" where
  "rplanIssues p nm = concat (map (inspectDep nm [''react'', ''react-dom'']) (rplanDeps p))"

definition checkRplanPeerDepsForReact17Prompt :: "state \<Rightarrow> res" where
  "checkRplanPeerDepsForReact17Prompt st =
     (case loadPackageJson st of
        Inl out \<Rightarrow> End out st
      | Inr p \<Rightarrow> confirm (rplanIssues p (node_modules (fs st))) st)"

definition core :: "string list" where
  "core = [''react'', ''react-dom'', ''@testing-library/react'']"

definition nonRplanDeps :: "pkg \<Rightarrow> string list" where
  "nonRplanDeps p =
     filter (\<lambda>n. \<not> startsWith n ''@rplan/'' \<and> n \<notin> set core)
       (map fst (spread (dependencies p) (devDependencies p)))"

text \<open>\<^verbatim>\<open>group && group[dep] && /^18\./.test(group[dep])\<close>\<close>

definition declared18 :: "deps option \<Rightarrow> string \<Rightarrow> bool" where
  "declared18 g dep =
     (case g of
        None \<Rightarrow> False
      | Some d \<Rightarrow>
          (case map_of d dep of
             None \<Rightarrow> False
           | Some v \<Rightarrow> v \<noteq> [] \<and> startsWith v ''18.''))"

definition ignored :: "pkg \<Rightarrow> string \<Rightarrow> bool" where
  "ignored p dep =
     (dep \<in> set ignoreWarningsFor
      \<and> (declared18 (dependencies p) dep \<or> declared18 (devDependencies p) dep))"

definition nonRplanIssues :: "pkg \<Rightarrow> (string \<Rightarrow> installed) \<Rightarrow> issue list" where
  "nonRplanIssues p nm =
     concat (map (\<lambda>dep. if ignored p dep then [] else inspectDep nm core dep) (nonRplanDeps p))"

definition checkNonRplanPeerDepsForReact17Prompt :: "state \<Rightarrow> res" where
  "checkNonRplanPeerDepsForReact17Prompt st =
     (case loadPackageJson st of
        Inl out \<Rightarrow> End out st
      | Inr p \<Rightarrow> confirm (nonRplanIssues p (node_modules (fs st))) st)"

section \<open>The React migration: the run\<close>

definition npmInstall :: "shell \<Rightarrow> state \<Rightarrow> res" where
  "npmInstall sh st =
     (case exec sh ''npm install'' st of
        (True, s1) \<Rightarrow> Ret (stepBox ''Migration Complete'' s1)
      | (False, s1) \<Rightarrow> End (Exited 1) s1)"

definition migrate :: "shell \<Rightarrow> state \<Rightarrow> res" where
  "migrate sh st =
     andThen (ensureNCU sh
        (stepBox ''Check ncu (npm-check-updates)''
          (stepBox ''Starting React migration script'' st)))
     (\<lambda>s. andThen (updateCoreReactDeps (stepBox ''Update core React dependencies'' s))
     (\<lambda>s. andThen (updateRplanDepsWithNCU sh (stepBox ''Update @rplan/* dependencies'' s))
     (\<lambda>s. andThen (syncRplanPeerDepsToInstalled
              (stepBox ''Sync @rplan/* peerDependencies to installed versions'' s))
     (\<lambda>s. andThen (checkRplanPeerDepsForReact17Prompt
              (stepBox ''Check @rplan/* peerDependencies for React 17'' s))
     (\<lambda>s. andThen (checkNonRplanPeerDepsForReact17Prompt
              (stepBox ''Check non-@rplan peerDependencies for React 17'' s))
     (\<lambda>s. npmInstall sh (stepBox ''Install dependencies (npm install)'' s)))))))"

text \<open>
  The exit code of the process: the outcome with which a step ended the run, 0 when the
  script ran to its end.
\<close>

fun exitOf :: "res \<Rightarrow> outcome" where
  "exitOf (Ret s) = Exited 0"
| "exitOf (End out s) = out"

definition start :: "fsys \<Rightarrow> input \<Rightarrow> state" where
  "start f lines = \<lparr>fs = f, stdin = lines, trace = []\<rparr>"

section \<open>The Node 22 migration\<close>

text \<open>
  The script is modelled as far as its control flow and its effects go. The walks over the
  directories (\<^verbatim>\<open>getYamlFilesInDir\<close>, \<^verbatim>\<open>findDockerfiles\<close>) are read off the file system
  of the model, which lists the files they find with their contents; \<open>workflows\<close> is
  \<open>None\<close> when \<^verbatim>\<open>./.github/workflows/\<close> does not exist, where \<^verbatim>\<open>readdirSync\<close> throws. The
  two textual substitutions (\<^verbatim>\<open>String.prototype.replace\<close> with the patterns of the
  script) are parameters \<open>rwYaml\<close> and \<open>rwDocker\<close>. \<^verbatim>\<open>require('./package.json')\<close>
  resolves next to the script and not in the working directory: it reads
  \<open>module_manifest\<close>, and throws when there is no such module or it does not parse.
\<close>

definition runCommand :: "shell \<Rightarrow> string \<Rightarrow> state \<Rightarrow> res" where
  "runCommand sh command st =
     (case exec sh command st of
        (True, s1) \<Rightarrow> Ret s1
      | (False, s1) \<Rightarrow> End (Exited 1) s1)"

definition verifyNodeCompatibility :: "nat \<Rightarrow> state \<Rightarrow> res" where
  "verifyNodeCompatibility currentMajorVersion st =
     (if currentMajorVersion < 22 then End (Exited 1) st else Ret st)"

definition updateNodeVersionInPackageJson :: "state \<Rightarrow> res" where
  "updateNodeVersionInPackageJson st =
     (case manifest (fs st) of
        Absent \<Rightarrow> Ret st
      | _ \<Rightarrow>
          (case module_manifest (fs st) of
             Parsed packageData \<Rightarrow>
               (let data = packageData
                      \<lparr>engines := Some (AList.update ''node'' ''>=22'' (orEmpty (engines packageData)))\<rparr>
                in Ret (st\<lparr>fs := (fs st)\<lparr>manifest := Parsed data\<rparr>,
                          trace := trace st @ [WriteManifest data]\<rparr>))
           | _ \<Rightarrow> End Crashed st))"

text \<open>One file of a \<^verbatim>\<open>forEach\<close> that rewrites files: written only when the text changed.\<close>

definition rewritten :: "(string \<Rightarrow> string) \<Rightarrow> string \<times> string \<Rightarrow> string \<times> string" where
  "rewritten rw file = (case file of (path, content) \<Rightarrow> (path, rw content))"

definition writesOf :: "(string \<Rightarrow> string) \<Rightarrow> string \<times> string \<Rightarrow> event list" where
  "writesOf rw file =
     (case file of (path, content) \<Rightarrow>
        if rw content \<noteq> content then [WriteFile path (rw content)] else [])"

definition updateNodeVersionInGitHubActions :: "(string \<Rightarrow> string) \<Rightarrow> state \<Rightarrow> res" where
  "updateNodeVersionInGitHubActions rwYaml st =
     (case workflows (fs st) of
        None \<Rightarrow> End Crashed st
      | Some workflowFiles \<Rightarrow>
          if length workflowFiles = 0 then Ret st
          else Ret (st\<lparr>fs := (fs st)\<lparr>workflows := Some (map (rewritten rwYaml) workflowFiles)\<rparr>,
                      trace := trace st @ concat (map (writesOf rwYaml) workflowFiles)\<rparr>))"

definition updateTypesNode :: "shell \<Rightarrow> state \<Rightarrow> res" where
  "updateTypesNode sh st =
     (case manifest (fs st) of
        Parsed packageJson \<Rightarrow>
          (case devDependencies packageJson of
             None \<Rightarrow> Ret st
           | Some d \<Rightarrow>
               if truthy (map_of d ''@types/node'')
               then runCommand sh ''npm install --save-dev @types/node@22'' st
               else Ret st)
      | _ \<Rightarrow> Ret st)"

definition installDependencies :: "shell \<Rightarrow> state \<Rightarrow> res" where
  "installDependencies sh st = runCommand sh ''npm install'' st"

text \<open>\<^verbatim>\<open>answer.toLowerCase() === 'yes'\<close>\<close>

definition toLowerCase :: "utf16 \<Rightarrow> utf16" where
  "toLowerCase s = map (\<lambda>u. if 65 \<le> u \<and> u \<le> 90 then u + 32 else u) s"

definition isYes :: "utf16 \<Rightarrow> bool" where
  "isYes answer = (toLowerCase answer = map of_char ''yes'')"

definition updateRplanDependency :: "shell \<Rightarrow> state \<Rightarrow> res" where
  \<open>updateRplanDependency sh st =
     (case question st of
        (Got answer, s) \<Rightarrow>
          if isYes answer
          then andThen (runCommand sh ''npx npm-check-updates '/@rplan/' -u'' s)
                 (runCommand sh ''npm install'')
          else Ret s
      | (Closed, s) \<Rightarrow> End (Exited 0) s
      | (Silent, s) \<Rightarrow> End Blocked s)\<close>

text \<open>
  The question at the end of \<^verbatim>\<open>checkAndUpdateDockerfiles\<close> is asked and not awaited: the
  caller goes on and closes the terminal.
\<close>

definition checkAndUpdateDockerfiles :: "(string \<Rightarrow> string) \<Rightarrow> state \<Rightarrow> res" where
  "checkAndUpdateDockerfiles rwDocker st =
     (let found = dockerfiles (fs st)
      in if length found = 0 then Ret st
         else Ret (st\<lparr>fs := (fs st)\<lparr>dockerfiles := map (rewritten rwDocker) found\<rparr>,
                     trace := trace st @ concat (map (writesOf rwDocker) found) @ [Ask]\<rparr>))"

definition runMigration ::
  "shell \<Rightarrow> (string \<Rightarrow> string) \<Rightarrow> (string \<Rightarrow> string) \<Rightarrow> nat \<Rightarrow> state \<Rightarrow> res" where
  "runMigration sh rwYaml rwDocker currentMajorVersion st =
     andThen (verifyNodeCompatibility currentMajorVersion st)
     (\<lambda>s. andThen (updateNodeVersionInPackageJson s)
     (\<lambda>s. andThen (updateNodeVersionInGitHubActions rwYaml s)
     (\<lambda>s. andThen (updateTypesNode sh s)
     (\<lambda>s. andThen (installDependencies sh s)
     (\<lambda>s. andThen (updateRplanDependency sh s)
     (\<lambda>s. checkAndUpdateDockerfiles rwDocker s))))))"

section \<open>Auxiliary definitions\<close>

text \<open>
  The effect of \<^verbatim>\<open>updateCoreReactDeps\<close> on one dependency group: the updates of
  \<open>updateDeps\<close> for the target versions, in their order.
\<close>

definition groupUpdated :: "deps \<Rightarrow> deps option \<Rightarrow> deps option" where
  "groupUpdated tv g = foldl (\<lambda>g nv. updateDeps g (fst nv) (snd nv)) g tv"

section \<open>Example inputs\<close>

text \<open>
  A project that depends on React 17, on a managed-scope package whose installed manifest
  accepts React 17 and 18, and on \<open>widget-lib\<close>, whose installed manifest asks for
  React 17 only; \<open>left-pad\<close> is not installed.
\<close>

definition ex_pkg :: pkg where
  "ex_pkg =
     \<lparr>dependencies = Some
        [(''react'', ''^17.0.2''), (''react-dom'', ''^17.0.2''), (''@rplan/ui'', ''1.0.0''),
         (''widget-lib'', ''2.0.0''), (''left-pad'', ''1.3.0'')],
      devDependencies = Some [(''@testing-library/react'', ''^12.0.0'')],
      peerDependencies = None,
      engines = None\<rparr>"

definition ex_modules :: "string \<Rightarrow> installed" where
  "ex_modules dep =
     (if dep = ''widget-lib'' then Installed (Some [(''react'', ''^17.0.0'')])
      else if dep = ''@rplan/ui'' then Installed (Some [(''react'', ''^17.0.0 || ^18.0.0'')])
      else if dep = ''react'' then Installed None
      else NoFile)"

definition ex_fs :: fsys where
  "ex_fs =
     \<lparr>manifest = Parsed ex_pkg, node_modules = ex_modules, module_manifest = Parsed ex_pkg,
      workflows = Some [], dockerfiles = []\<rparr>"

text \<open>External commands that all succeed and change nothing on disk.\<close>

definition ex_shell :: shell where
  "ex_shell cmd f = (True, f)"

text \<open>
  A project that depends on React 17 only; the installed \<open>react-dom\<close> of version 17 asks
  for \<open>react 17.0.2\<close>.
\<close>

definition core_pkg :: pkg where
  "core_pkg =
     \<lparr>dependencies = Some [(''react'', ''^17.0.2''), (''react-dom'', ''^17.0.2'')],
      devDependencies = None,
      peerDependencies = None,
      engines = None\<rparr>"

definition core_modules :: "string \<Rightarrow> installed" where
  "core_modules dep =
     (if dep = ''react-dom'' then Installed (Some [(''react'', ''17.0.2'')])
      else if dep = ''react'' then Installed None
      else NoFile)"

definition core_fs :: fsys where
  "core_fs =
     \<lparr>manifest = Parsed core_pkg, node_modules = core_modules, module_manifest = Absent,
      workflows = Some [], dockerfiles = []\<rparr>"

text \<open>
  A project whose dependencies are all compatible or not inspectable: \<open>@rplan/gone\<close> and
  \<open>left-pad\<close> are not installed, the manifest of \<open>broken-lib\<close> does not parse.
\<close>

definition quiet_pkg :: pkg where
  "quiet_pkg =
     \<lparr>dependencies = Some
        [(''react'', ''^17.0.2''), (''@rplan/ui'', ''1.0.0''), (''@rplan/gone'', ''2.0.0''),
         (''left-pad'', ''1.3.0''), (''broken-lib'', ''0.1.0'')],
      devDependencies = None,
      peerDependencies = None,
      engines = None\<rparr>"

definition quiet_modules :: "string \<Rightarrow> installed" where
  "quiet_modules dep =
     (if dep = ''@rplan/ui'' then Installed (Some [(''react'', ''^17.0.0 || ^18.0.0'')])
      else if dep = ''broken-lib'' then Throws
      else NoFile)"

definition quiet_fs :: fsys where
  "quiet_fs =
     \<lparr>manifest = Parsed quiet_pkg, node_modules = quiet_modules, module_manifest = Absent,
      workflows = Some [], dockerfiles = []\<rparr>"

text \<open>
  A project that declares the allow-listed \<open>react-test-renderer\<close> at React 18, as the
  range \<open>^18.3.1\<close> that \<open>TARGET_VERSIONS\<close> sets, while the installed copy is still the
  one of React 17, whose manifest asks for \<open>react 17.0.2\<close>.
\<close>

definition caret_pkg :: pkg where
  "caret_pkg =
     \<lparr>dependencies = Some [(''react'', ''^18.3.1'')],
      devDependencies = Some [(''react-test-renderer'', ''^18.3.1'')],
      peerDependencies = None,
      engines = None\<rparr>"

definition stale_modules :: "string \<Rightarrow> installed" where
  "stale_modules dep =
     (if dep = ''react-test-renderer'' then Installed (Some [(''react'', ''17.0.2'')])
      else NoFile)"

definition caret_fs :: fsys where
  "caret_fs =
     \<lparr>manifest = Parsed caret_pkg, node_modules = stale_modules, module_manifest = Absent,
      workflows = Some [], dockerfiles = []\<rparr>"

section \<open>Invariants of runs\<close>

text \<open>
  A step \<open>f\<close> started with a trace that satisfies \<open>P\<close> returns with a trace that
  satisfies \<open>Q\<close>, or ends the process with an outcome and a trace that satisfy \<open>E\<close>.
\<close>

definition triple ::
  "(event list \<Rightarrow> bool) \<Rightarrow> (state \<Rightarrow> res) \<Rightarrow> (event list \<Rightarrow> bool)
    \<Rightarrow> (outcome \<Rightarrow> event list \<Rightarrow> bool) \<Rightarrow> bool" where
  "triple P f Q E =
     (\<forall>st. P (trace st) \<longrightarrow> (case f st of Ret s \<Rightarrow> Q (trace s) | End out s \<Rightarrow> E out (trace s)))"

text \<open>
  The run has not printed its last step title and has not met the end of the input; it
  has printed the title; it has ended before that, with exit code 0 exactly when it met
  the end of the input.
\<close>

definition incomplete :: "event list \<Rightarrow> bool" where
  "incomplete tr = (Step ''Migration Complete'' \<notin> set tr \<and> EndOfInput \<notin> set tr)"

definition completed :: "event list \<Rightarrow> bool" where
  "completed tr = (Step ''Migration Complete'' \<in> set tr \<and> EndOfInput \<notin> set tr)"

definition failed :: "outcome \<Rightarrow> event list \<Rightarrow> bool" where
  "failed out tr =
     (Step ''Migration Complete'' \<notin> set tr \<and> (out = Exited 0 \<longleftrightarrow> EndOfInput \<in> set tr))"

text \<open>
  No answer read so far was a refusal, and neither \<^verbatim>\<open>npm install\<close> nor the global
  installation of \<^verbatim>\<open>npm-check-updates\<close> has failed.
\<close>

definition clean :: "event list \<Rightarrow> bool" where
  "clean tr =
     ((\<forall>a. Answer a \<in> set tr \<longrightarrow> affirmative a)
      \<and> Exec ''npm install'' False \<notin> set tr
      \<and> Exec ''npm install -g npm-check-updates'' False \<notin> set tr)"

definition cleanOrExit1 :: "outcome \<Rightarrow> event list \<Rightarrow> bool" where
  "cleanOrExit1 out tr = (clean tr \<or> out = Exited 1)"

text \<open>
  Around every occurrence of the step title \<open>g\<close>, the manifest was written before it and
  is not written after it.
\<close>

definition writesPrecede :: "string \<Rightarrow> event list \<Rightarrow> bool" where
  "writesPrecede g tr =
     (\<forall>pre post. tr = pre @ Step g # post \<longrightarrow>
        (\<exists>d. WriteManifest d \<in> set pre) \<and> (\<forall>e \<in> set post. \<forall>d. e \<noteq> WriteManifest d))"

text \<open>The operator types one line on a terminal, and what comes after it.\<close>

definition typed :: "string \<Rightarrow> input \<Rightarrow> input" where
  "typed line rest = Data (map of_char line) [] rest"

definition gate1 :: string where
  "gate1 = ''Check @rplan/* peerDependencies for React 17''"

text \<open>
  The stages of a run of the React migration with respect to the first gate: its step
  title is not printed yet; moreover the manifest has been written; the title is printed,
  the manifest was written before and has not been written since.
\<close>

definition ungated :: "event list \<Rightarrow> bool" where
  "ungated tr = (Step gate1 \<notin> set tr)"

definition edited :: "event list \<Rightarrow> bool" where
  "edited tr = (ungated tr \<and> (\<exists>d. WriteManifest d \<in> set tr))"

definition gated :: "event list \<Rightarrow> bool" where
  "gated tr = ((\<exists>d. WriteManifest d \<in> set tr) \<and> writesPrecede gate1 tr)"

definition ordered :: "outcome \<Rightarrow> event list \<Rightarrow> bool" where
  "ordered out tr = writesPrecede gate1 tr"

text \<open>
  No external command has failed, and the end of the input has not been met; the run has
  ended, with exit code 0 exactly when it met the end of the input, and with exit code 1
  if a command has failed.
\<close>

definition allOk :: "event list \<Rightarrow> bool" where
  "allOk tr = ((\<forall>c. Exec c False \<notin> set tr) \<and> EndOfInput \<notin> set tr)"

definition nonzero :: "outcome \<Rightarrow> event list \<Rightarrow> bool" where
  "nonzero out tr =
     ((out = Exited 0 \<longleftrightarrow> EndOfInput \<in> set tr)
      \<and> ((\<forall>c. Exec c False \<notin> set tr) \<or> out = Exited 1))"

text \<open>
  A shell on which the probe \<^verbatim>\<open>ncu -v\<close> fails and every other command succeeds, one on
  which \<^verbatim>\<open>npm install\<close> fails, and a directory without \<^verbatim>\<open>package.json\<close>.
\<close>

definition probe_shell :: shell where
  "probe_shell cmd f = (cmd \<noteq> ''ncu -v'', f)"

definition offline_shell :: shell where
  "offline_shell cmd f = (cmd \<noteq> ''npm install'', f)"

definition bare_fs :: fsys where
  "bare_fs =
     \<lparr>manifest = Absent, node_modules = (\<lambda>dep. NoFile), module_manifest = Absent,
      workflows = Some [], dockerfiles = []\<rparr>"

section \<open>Strings and objects\<close>


lemma startsWith_prefix: "startsWith s p \<longleftrightarrow> prefix p s"
  by (induction s p rule: startsWith.induct) auto

lemma regex_test_sublist: "regex_test p s \<longleftrightarrow> sublist p s"
  by (induction s) (auto simp: startsWith_prefix sublist_Cons_right)

lemma updateDeps_None: "updateDeps g n v = None \<longleftrightarrow> g = None"
  by (auto simp: updateDeps_def split: option.splits)

lemma truthy_key: "truthy (map_of d k) \<Longrightarrow> k \<in> fst ` set d"
  by (cases "map_of d k") (force dest: map_of_SomeD)+

lemma updateDeps_keys: "map fst (orEmpty (updateDeps g n v)) = map fst (orEmpty g)"
  by (cases g) (auto simp: updateDeps_def update_keys dest: truthy_key)

lemma updateDeps_other: "k \<noteq> n \<Longrightarrow> map_of (orEmpty (updateDeps g n v)) k = map_of (orEmpty g) k"
  by (cases g) (auto simp: updateDeps_def update_conv')

lemma updateDeps_same:
  "map_of (orEmpty (updateDeps g n v)) n \<noteq> map_of (orEmpty g) n
   \<Longrightarrow> map_of (orEmpty (updateDeps g n v)) n = Some v"
  by (cases g) (auto simp: updateDeps_def update_conv' split: if_splits)

lemma foldl_groups:
  "dependencies (foldl updateAllGroups p tv) = groupUpdated tv (dependencies p)
   \<and> devDependencies (foldl updateAllGroups p tv) = groupUpdated tv (devDependencies p)
   \<and> peerDependencies (foldl updateAllGroups p tv) = groupUpdated tv (peerDependencies p)
   \<and> engines (foldl updateAllGroups p tv) = engines p"
  by (induction tv arbitrary: p) (auto simp: groupUpdated_def updateAllGroups_def)

lemma groupUpdated_None: "groupUpdated tv g = None \<longleftrightarrow> g = None"
  by (induction tv arbitrary: g) (auto simp: groupUpdated_def updateDeps_None)

lemma groupUpdated_keys: "map fst (orEmpty (groupUpdated tv g)) = map fst (orEmpty g)"
  by (induction tv arbitrary: g) (auto simp: groupUpdated_def updateDeps_keys)

lemma groupUpdated_other:
  "k \<notin> fst ` set tv \<Longrightarrow> map_of (orEmpty (groupUpdated tv g)) k = map_of (orEmpty g) k"
  by (induction tv arbitrary: g) (auto simp: groupUpdated_def updateDeps_other)

lemma groupUpdated_changed:
  assumes "map_of (orEmpty (groupUpdated tv g)) k \<noteq> map_of (orEmpty g) k"
  shows "k \<in> fst ` set tv \<and> k \<in> fst ` set (orEmpty g)"
proof -
  have a: "k \<in> fst ` set tv" using assms groupUpdated_other by blast
  have "map_of (orEmpty g) k \<noteq> None"
  proof
    assume n: "map_of (orEmpty g) k = None"
    then have "k \<notin> set (map fst (orEmpty g))" by (simp add: map_of_eq_None_iff)
    then have "k \<notin> set (map fst (orEmpty (groupUpdated tv g)))" by (simp add: groupUpdated_keys)
    then have "map_of (orEmpty (groupUpdated tv g)) k = None" by (simp add: map_of_eq_None_iff)
    with n assms show False by simp
  qed
  then have "k \<in> fst ` set (orEmpty g)" by (simp add: map_of_eq_None_iff)
  with a show ?thesis by simp
qed

lemma groupUpdated_value:
  "distinct (map fst tv)
   \<Longrightarrow> map_of (orEmpty (groupUpdated tv g)) k \<noteq> map_of (orEmpty g) k
   \<Longrightarrow> map_of (orEmpty (groupUpdated tv g)) k = map_of tv k"
proof (induction tv arbitrary: g)
  case Nil
  then show ?case by (simp add: groupUpdated_def)
next
  case (Cons nv tv)
  obtain n v where nv: "nv = (n, v)" by (cases nv)
  have step: "groupUpdated ((n, v) # tv) g = groupUpdated tv (updateDeps g n v)"
    by (simp add: groupUpdated_def)
  show ?case
  proof (cases "k = n")
    case True
    with Cons.prems nv have "k \<notin> fst ` set tv" by auto
    then have "map_of (orEmpty (groupUpdated tv (updateDeps g n v))) k
        = map_of (orEmpty (updateDeps g n v)) k"
      by (rule groupUpdated_other)
    with Cons.prems(2) True show ?thesis
      using updateDeps_same [of g n v] by (simp add: step nv)
  next
    case False
    then have "map_of (orEmpty (updateDeps g n v)) k = map_of (orEmpty g) k"
      by (rule updateDeps_other)
    with Cons.prems Cons.IH [of "updateDeps g n v"] False show ?thesis
      by (simp add: step nv)
  qed
qed

section \<open>The scan of the installed manifests and the prompt\<close>

lemma checkPeer_iff:
  "i \<in> set (checkPeer dep peer key)
   \<longleftrightarrow> (\<exists>r. i = Issue dep key r \<and> map_of peer key = Some r
            \<and> sublist ''17.'' r \<and> \<not> sublist ''18'' r)"
  by (auto simp: regex_test_sublist split: option.splits)

lemma inspectDep_iff:
  "i \<in> set (inspectDep nm keys dep)
   \<longleftrightarrow> (\<exists>peers key r. nm dep = Installed peers \<and> key \<in> set keys \<and> i = Issue dep key r
            \<and> map_of (orEmpty peers) key = Some r
            \<and> sublist ''17.'' r \<and> \<not> sublist ''18'' r)"
  unfolding inspectDep_def
  by (cases "nm dep") (auto simp: checkPeer_iff simp del: checkPeer.simps)

lemma inspectDep_skipped: "nm dep = NoFile \<or> nm dep = Throws \<Longrightarrow> inspectDep nm keys dep = []"
  by (auto simp: inspectDep_def)

lemma rplanIssues_iff:
  "Issue dep key r \<in> set (rplanIssues p nm)
   \<longleftrightarrow> dep \<in> set (rplanDeps p) \<and> key \<in> {''react'', ''react-dom''}
       \<and> (\<exists>peers. nm dep = Installed peers \<and> map_of (orEmpty peers) key = Some r)
       \<and> sublist ''17.'' r \<and> \<not> sublist ''18'' r"
  unfolding rplanIssues_def by (auto simp: inspectDep_iff)

lemma nonRplanIssues_iff:
  "Issue dep key r \<in> set (nonRplanIssues p nm)
   \<longleftrightarrow> dep \<in> set (nonRplanDeps p) \<and> \<not> ignored p dep
       \<and> key \<in> {''react'', ''react-dom'', ''@testing-library/react''}
       \<and> (\<exists>peers. nm dep = Installed peers \<and> map_of (orEmpty peers) key = Some r)
       \<and> sublist ''17.'' r \<and> \<not> sublist ''18'' r"
  unfolding nonRplanIssues_def by (auto simp: inspectDep_iff core_def split: if_splits)

lemma declared18_iff:
  "declared18 g dep \<longleftrightarrow> (\<exists>v. map_of (orEmpty g) dep = Some v \<and> prefix ''18.'' v)"
  by (cases g) (auto simp: declared18_def startsWith_prefix split: option.splits)

lemma ignored_iff:
  "ignored p dep \<longleftrightarrow>
     dep = ''react-test-renderer''
     \<and> (\<exists>v. (map_of (orEmpty (dependencies p)) dep = Some v
              \<or> map_of (orEmpty (devDependencies p)) dep = Some v) \<and> prefix ''18.'' v)"
  by (auto simp: ignored_def ignoreWarningsFor_def declared18_iff)

lemma confirm_Nil: "confirm [] st = Ret st"
  by (simp add: confirm_def)

lemma confirm_answer:
  "issues \<noteq> [] \<Longrightarrow> stdin st = Data a others rest \<Longrightarrow>
   confirm issues st =
     (if affirmative a then Ret (st\<lparr>stdin := rest, trace := trace st @ [Ask, Answer a]\<rparr>)
      else End (Exited 1) (st\<lparr>stdin := rest, trace := trace st @ [Ask, Answer a]\<rparr>))"
  by (simp add: confirm_def promptContinue_def question_def)

lemma confirm_blocked:
  "issues \<noteq> [] \<Longrightarrow> stdin st = Idle \<Longrightarrow>
   confirm issues st = End Blocked (st\<lparr>trace := trace st @ [Ask]\<rparr>)"
  by (simp add: confirm_def promptContinue_def question_def)

lemma confirm_closed:
  "issues \<noteq> [] \<Longrightarrow> stdin st = Eof \<Longrightarrow>
   confirm issues st = End (Exited 0) (st\<lparr>trace := trace st @ [Ask, EndOfInput]\<rparr>)"
  by (simp add: confirm_def promptContinue_def question_def)

lemma gate_loaded:
  "manifest (fs st) = Parsed p \<Longrightarrow>
   checkRplanPeerDepsForReact17Prompt st = confirm (rplanIssues p (node_modules (fs st))) st
   \<and> checkNonRplanPeerDepsForReact17Prompt st
      = confirm (nonRplanIssues p (node_modules (fs st))) st"
  by (simp add: checkRplanPeerDepsForReact17Prompt_def
      checkNonRplanPeerDepsForReact17Prompt_def loadPackageJson_def)

lemma issue_name_inspectDep: "i \<in> set (inspectDep nm keys dep) \<Longrightarrow> issue_name i = dep"
  by (auto simp: inspectDep_iff)

lemma issue_name_rplan:
  "i \<in> set (rplanIssues p nm) \<Longrightarrow>
   issue_name i \<in> set (rplanDeps p) \<and> nm (issue_name i) \<noteq> NoFile \<and> nm (issue_name i) \<noteq> Throws"
  unfolding rplanIssues_def by (auto simp: inspectDep_iff)

lemma issue_name_nonRplan:
  "i \<in> set (nonRplanIssues p nm) \<Longrightarrow>
   issue_name i \<in> set (nonRplanDeps p) \<and> nm (issue_name i) \<noteq> NoFile \<and> nm (issue_name i) \<noteq> Throws"
  unfolding nonRplanIssues_def by (auto simp: inspectDep_iff split: if_splits)

lemma affirmative_iff:
  "affirmative answer \<longleftrightarrow> toLowerCase (trim answer) \<in> {map of_char ''y'', map of_char ''yes''}"
  unfolding affirmative_def toLowerCase_def matches_ci_def
  by (auto split: list.splits)

lemma updateDeps_result:
  "map_of (orEmpty (updateDeps g n v)) n = Some w \<Longrightarrow> w = v \<or> w = []"
  by (cases g) (auto simp: updateDeps_def update_conv' split: if_splits)

lemma groupUpdated_renderer:
  assumes "map_of (orEmpty (groupUpdated TARGET_VERSIONS g)) ''react-test-renderer'' = Some w"
  shows "w = ''^18.3.1'' \<or> w = []"
proof -
  have "groupUpdated TARGET_VERSIONS g
      = updateDeps (updateDeps (updateDeps (updateDeps g ''react'' ''^18.3.1'')
          ''react-dom'' ''^18.3.1'') ''@testing-library/react'' ''^14.0.0'')
          ''react-test-renderer'' ''^18.3.1''"
    by (simp add: groupUpdated_def TARGET_VERSIONS_def)
  with assms show ?thesis by (auto dest: updateDeps_result)
qed

lemma declared18_groupUpdated:
  "\<not> declared18 (groupUpdated TARGET_VERSIONS g) ''react-test-renderer''"
  using groupUpdated_renderer [of g] by (auto simp: declared18_iff)

lemma ignored_after_update: "\<not> ignored (peersSynced (coreUpdated p)) dep"
proof -
  have "dependencies (peersSynced (coreUpdated p))
      = groupUpdated TARGET_VERSIONS (dependencies p)"
    "devDependencies (peersSynced (coreUpdated p))
      = groupUpdated TARGET_VERSIONS (devDependencies p)"
    using foldl_groups [of p TARGET_VERSIONS]
    by (simp_all add: peersSynced_def coreUpdated_def Let_def)
  then show ?thesis
    using declared18_groupUpdated by (auto simp: ignored_def ignoreWarningsFor_def)
qed

lemma foldl_update_keys:
  "fst ` set (foldl (\<lambda>m (k, v). AList.update k v m) m xs) = fst ` set m \<union> fst ` set xs"
proof (induction xs arbitrary: m)
  case Nil
  then show ?case by simp
next
  case (Cons x xs)
  obtain k v where x: "x = (k, v)" by (cases x)
  have "fst ` set (foldl (\<lambda>m (k, v). AList.update k v m) (AList.update k v m) xs)
      = fst ` set (AList.update k v m) \<union> fst ` set xs"
    by (rule Cons.IH)
  also have "fst ` set (AList.update k v m) = {k} \<union> fst ` set m"
    by (rule dom_update)
  finally show ?case by (auto simp: x)
qed

lemma spread_keys:
  "set (map fst (spread a b)) = fst ` set (orEmpty a) \<union> fst ` set (orEmpty b)"
  by (simp add: spread_def foldl_update_keys image_Un del: foldl_append)

lemma rplanDeps_iff:
  "dep \<in> set (rplanDeps p) \<longleftrightarrow>
     (dep \<in> fst ` set (orEmpty (dependencies p)) \<or> dep \<in> fst ` set (orEmpty (devDependencies p)))
     \<and> prefix ''@rplan/'' dep"
  using spread_keys [of "dependencies p" "devDependencies p"]
  by (auto simp: rplanDeps_def startsWith_prefix)

lemma nonRplanDeps_iff:
  "dep \<in> set (nonRplanDeps p) \<longleftrightarrow>
     (dep \<in> fst ` set (orEmpty (dependencies p)) \<or> dep \<in> fst ` set (orEmpty (devDependencies p)))
     \<and> \<not> prefix ''@rplan/'' dep
     \<and> dep \<notin> {''react'', ''react-dom'', ''@testing-library/react''}"
  using spread_keys [of "dependencies p" "devDependencies p"]
  by (auto simp: nonRplanDeps_def startsWith_prefix core_def)

section \<open>Invariants of the React migration\<close>

lemma triple_seq:
  "triple P f Q E \<Longrightarrow> triple Q g R E \<Longrightarrow> triple P (\<lambda>st. andThen (f st) g) R E"
  unfolding triple_def
proof (intro allI impI)
  fix st :: state
  assume f: "\<forall>st. P (trace st) \<longrightarrow> (case f st of Ret s \<Rightarrow> Q (trace s) | End out s \<Rightarrow> E out (trace s))"
    and g: "\<forall>st. Q (trace st) \<longrightarrow> (case g st of Ret s \<Rightarrow> R (trace s) | End out s \<Rightarrow> E out (trace s))"
    and p: "P (trace st)"
  show "case andThen (f st) g of Ret s \<Rightarrow> R (trace s) | End out s \<Rightarrow> E out (trace s)"
  proof (cases "f st")
    case (Ret s)
    with f p have "Q (trace s)" by (auto split: res.splits)
    with g Ret show ?thesis by simp
  next
    case (End out s)
    with f p show ?thesis by (auto split: res.splits)
  qed
qed

lemma triple_box:
  "triple P f Q E \<Longrightarrow> (\<And>tr. P' tr \<Longrightarrow> P (tr @ [Step t])) \<Longrightarrow>
   triple P' (\<lambda>s. f (stepBox t s)) Q E"
  by (simp add: triple_def stepBox_def)

lemma triple_start:
  "triple P f Q E \<Longrightarrow> P [] \<Longrightarrow>
   (case f (start fsy lines) of Ret s \<Rightarrow> Q (trace s) | End out s \<Rightarrow> E out (trace s))"
  by (simp add: triple_def start_def)

lemma migrate_triple:
  assumes b1: "\<And>t tr. t \<in> {''Starting React migration script'', ''Check ncu (npm-check-updates)'',
        ''Update core React dependencies'', ''Update @rplan/* dependencies'',
        ''Sync @rplan/* peerDependencies to installed versions''} \<Longrightarrow> I tr \<Longrightarrow> I (tr @ [Step t])"
    and b2: "\<And>tr. I' tr \<Longrightarrow> J (tr @ [Step ''Check @rplan/* peerDependencies for React 17''])"
    and b3: "\<And>t tr. t \<in> {''Check non-@rplan peerDependencies for React 17'',
        ''Install dependencies (npm install)''} \<Longrightarrow> J tr \<Longrightarrow> J (tr @ [Step t])"
    and s1: "triple I (ensureNCU sh) I E"
    and s2: "triple I updateCoreReactDeps I E"
    and s3: "triple I (updateRplanDepsWithNCU sh) I E"
    and s4: "triple I syncRplanPeerDepsToInstalled I' E"
    and s5: "triple J checkRplanPeerDepsForReact17Prompt J E"
    and s6: "triple J checkNonRplanPeerDepsForReact17Prompt J E"
    and s7: "triple J (npmInstall sh) Q E"
  shows "triple I (migrate sh) Q E"
  unfolding migrate_def
  apply (rule triple_seq [where Q = I])
   apply (rule triple_box [OF triple_box [OF s1]])
    apply (rule b1, simp, assumption)
   apply (rule b1, simp, assumption)
  apply (rule triple_seq [where Q = I])
   apply (rule triple_box [OF s2])
   apply (rule b1, simp, assumption)
  apply (rule triple_seq [where Q = I])
   apply (rule triple_box [OF s3])
   apply (rule b1, simp, assumption)
  apply (rule triple_seq [where Q = I'])
   apply (rule triple_box [OF s4])
   apply (rule b1, simp, assumption)
  apply (rule triple_seq [where Q = J])
   apply (rule triple_box [OF s5])
   apply (rule b2, assumption)
  apply (rule triple_seq [where Q = J])
   apply (rule triple_box [OF s6])
   apply (rule b3, simp, assumption)
  apply (rule triple_box [OF s7])
  apply (rule b3, simp, assumption)
  done

lemma ensureNCU_incomplete: "triple incomplete (ensureNCU sh) incomplete failed"
  by (auto simp: triple_def ensureNCU_def exec_def incomplete_def failed_def
      split: prod.splits bool.splits)

lemma load_incomplete:
  "triple incomplete updateCoreReactDeps incomplete failed"
  "triple incomplete syncRplanPeerDepsToInstalled incomplete failed"
  by (auto simp: triple_def updateCoreReactDeps_def syncRplanPeerDepsToInstalled_def
      loadPackageJson_def savePackageJson_def incomplete_def failed_def
      split: manifest_file.splits)

lemma ncu_incomplete: "triple incomplete (updateRplanDepsWithNCU sh) incomplete failed"
  by (auto simp: triple_def updateRplanDepsWithNCU_def exec_def incomplete_def failed_def
      split: prod.splits)

lemma confirm_incomplete: "triple incomplete (confirm issues) incomplete failed"
  by (auto simp: triple_def confirm_def promptContinue_def question_def incomplete_def
      failed_def split: input.splits)

lemma gates_incomplete:
  "triple incomplete checkRplanPeerDepsForReact17Prompt incomplete failed"
  "triple incomplete checkNonRplanPeerDepsForReact17Prompt incomplete failed"
  using confirm_incomplete
  by (auto simp: triple_def checkRplanPeerDepsForReact17Prompt_def
      checkNonRplanPeerDepsForReact17Prompt_def loadPackageJson_def incomplete_def failed_def
      split: manifest_file.splits)

lemma npmInstall_incomplete:
  "triple incomplete (npmInstall sh) completed failed"
  by (auto simp: triple_def npmInstall_def exec_def stepBox_def incomplete_def completed_def
      failed_def split: prod.splits bool.splits)

lemma box_incomplete:
  "t \<noteq> ''Migration Complete'' \<Longrightarrow> incomplete tr \<Longrightarrow> incomplete (tr @ [Step t])"
  by (simp add: incomplete_def)

lemma migrate_incomplete:
  "triple incomplete (migrate sh) completed failed"
  by (rule migrate_triple [where I' = incomplete and J = incomplete])
    (auto simp: ensureNCU_incomplete load_incomplete ncu_incomplete gates_incomplete
      npmInstall_incomplete intro: box_incomplete)

lemma ensureNCU_clean: "triple clean (ensureNCU sh) clean cleanOrExit1"
  by (auto simp: triple_def ensureNCU_def exec_def clean_def cleanOrExit1_def
      split: prod.splits bool.splits)

lemma load_clean:
  "triple clean updateCoreReactDeps clean cleanOrExit1"
  "triple clean syncRplanPeerDepsToInstalled clean cleanOrExit1"
  by (auto simp: triple_def updateCoreReactDeps_def syncRplanPeerDepsToInstalled_def
      loadPackageJson_def savePackageJson_def clean_def cleanOrExit1_def
      split: manifest_file.splits)

lemma ncu_clean: "triple clean (updateRplanDepsWithNCU sh) clean cleanOrExit1"
  by (auto simp: triple_def updateRplanDepsWithNCU_def exec_def clean_def cleanOrExit1_def
      ncu_rplan_cmd_def split: prod.splits)

lemma confirm_clean: "triple clean (confirm issues) clean cleanOrExit1"
  by (auto simp: triple_def confirm_def promptContinue_def question_def clean_def
      cleanOrExit1_def split: input.splits)

lemma gates_clean:
  "triple clean checkRplanPeerDepsForReact17Prompt clean cleanOrExit1"
  "triple clean checkNonRplanPeerDepsForReact17Prompt clean cleanOrExit1"
  using confirm_clean
  by (auto simp: triple_def checkRplanPeerDepsForReact17Prompt_def
      checkNonRplanPeerDepsForReact17Prompt_def loadPackageJson_def cleanOrExit1_def
      split: manifest_file.splits)

lemma npmInstall_clean: "triple clean (npmInstall sh) clean cleanOrExit1"
  by (auto simp: triple_def npmInstall_def exec_def stepBox_def clean_def cleanOrExit1_def
      split: prod.splits bool.splits)

lemma box_clean: "clean tr \<Longrightarrow> clean (tr @ [Step t])"
  by (simp add: clean_def)

lemma migrate_clean: "triple clean (migrate sh) clean cleanOrExit1"
  by (rule migrate_triple [where I' = clean and J = clean])
    (auto simp: ensureNCU_clean load_clean ncu_clean gates_clean npmInstall_clean
      intro: box_clean)

lemma snoc_eq_append_Cons:
  "tr @ [e] = pre @ x # post \<longleftrightarrow>
     (post = [] \<and> pre = tr \<and> x = e) \<or> (\<exists>post'. post = post' @ [e] \<and> tr = pre @ x # post')"
  by (cases post rule: rev_cases) auto

lemma ungated_ordered: "ungated tr \<Longrightarrow> writesPrecede gate1 tr"
  by (auto simp: ungated_def writesPrecede_def)

lemma ungated_append: "ungated (tr @ evs) \<longleftrightarrow> ungated tr \<and> Step gate1 \<notin> set evs"
  by (auto simp: ungated_def)

lemma gated_snoc:
  assumes g: "gated tr" and e: "\<And>d. e \<noteq> WriteManifest d"
  shows "gated (tr @ [e])"
proof -
  from g obtain d0 where d0: "WriteManifest d0 \<in> set tr" by (auto simp: gated_def)
  have "(\<exists>d. WriteManifest d \<in> set pre) \<and> (\<forall>x \<in> set post. \<forall>d. x \<noteq> WriteManifest d)"
    if eq: "tr @ [e] = pre @ Step gate1 # post" for pre post
  proof -
    from eq consider "post = []" "pre = tr"
      | post' where "post = post' @ [e]" "tr = pre @ Step gate1 # post'"
      unfolding snoc_eq_append_Cons by blast
    then show ?thesis
    proof cases
      case 1
      with d0 show ?thesis by auto
    next
      case 2
      with g have "(\<exists>d. WriteManifest d \<in> set pre) \<and> (\<forall>x \<in> set post'. \<forall>d. x \<noteq> WriteManifest d)"
        unfolding gated_def writesPrecede_def by blast
      with 2 e show ?thesis by auto
    qed
  qed
  with d0 show ?thesis by (auto simp: gated_def writesPrecede_def)
qed

lemma edited_gated: "edited tr \<Longrightarrow> gated (tr @ [Step gate1])"
  unfolding gated_def edited_def ungated_def writesPrecede_def snoc_eq_append_Cons
  by auto

lemma gated_append:
  "gated tr \<Longrightarrow> \<forall>e \<in> set evs. \<forall>d. e \<noteq> WriteManifest d \<Longrightarrow> gated (tr @ evs)"
proof (induction evs rule: rev_induct)
  case Nil
  then show ?case by simp
next
  case (snoc e evs)
  then have "gated ((tr @ evs) @ [e])" by (intro gated_snoc) auto
  then show ?case by simp
qed

lemma gated_ordered: "gated tr \<Longrightarrow> writesPrecede gate1 tr"
  by (simp add: gated_def)

lemma ensureNCU_ungated: "triple ungated (ensureNCU sh) ungated ordered"
  by (auto simp: triple_def ensureNCU_def exec_def ordered_def ungated_append
      intro!: ungated_ordered split: prod.splits bool.splits)

lemma updateCore_ungated: "triple ungated updateCoreReactDeps ungated ordered"
  by (auto simp: triple_def updateCoreReactDeps_def loadPackageJson_def savePackageJson_def
      ordered_def ungated_append intro!: ungated_ordered split: manifest_file.splits)

lemma ncu_ungated: "triple ungated (updateRplanDepsWithNCU sh) ungated ordered"
  by (auto simp: triple_def updateRplanDepsWithNCU_def exec_def ordered_def ungated_append
      split: prod.splits)

lemma sync_edited: "triple ungated syncRplanPeerDepsToInstalled edited ordered"
  by (auto simp: triple_def syncRplanPeerDepsToInstalled_def loadPackageJson_def
      savePackageJson_def ordered_def edited_def ungated_append intro!: ungated_ordered
      split: manifest_file.splits)

lemma confirm_gated: "triple gated (confirm issues) gated ordered"
  by (auto simp: triple_def confirm_def promptContinue_def question_def ordered_def
      intro!: gated_append gated_ordered split: input.splits)

lemma gates_gated:
  "triple gated checkRplanPeerDepsForReact17Prompt gated ordered"
  "triple gated checkNonRplanPeerDepsForReact17Prompt gated ordered"
  using confirm_gated
  by (auto simp: triple_def checkRplanPeerDepsForReact17Prompt_def
      checkNonRplanPeerDepsForReact17Prompt_def loadPackageJson_def ordered_def
      intro!: gated_ordered split: manifest_file.splits)

lemma npmInstall_gated: "triple gated (npmInstall sh) (writesPrecede gate1) ordered"
  by (auto simp: triple_def npmInstall_def exec_def stepBox_def ordered_def
      intro!: gated_append gated_ordered
      split: prod.splits bool.splits)

lemma migrate_ordered: "triple ungated (migrate sh) (writesPrecede gate1) ordered"
proof (rule migrate_triple [where I' = edited and J = gated])
  show "ungated (tr @ [Step t])"
    if "t \<in> {''Starting React migration script'', ''Check ncu (npm-check-updates)'',
        ''Update core React dependencies'', ''Update @rplan/* dependencies'',
        ''Sync @rplan/* peerDependencies to installed versions''}" "ungated tr" for t tr
    using that by (auto simp: ungated_append gate1_def)
  show "gated (tr @ [Step ''Check @rplan/* peerDependencies for React 17''])"
    if "edited tr" for tr
    using edited_gated [OF that] by (simp add: gate1_def)
  show "gated (tr @ [Step t])" if "gated tr" for t tr
    using that by (rule gated_snoc) simp
qed (rule ensureNCU_ungated updateCore_ungated ncu_ungated sync_edited gates_gated
    npmInstall_gated)+

lemma confirm_footprint:
  "fs (final_state (confirm issues st)) = fs st
   \<and> (\<exists>evs. trace (final_state (confirm issues st)) = trace st @ evs
          \<and> set evs \<subseteq> insert Ask (insert EndOfInput (range Answer)))"
  by (auto simp: confirm_def promptContinue_def question_def split: input.splits)

lemma gates_footprint:
  "fs (final_state (checkRplanPeerDepsForReact17Prompt st)) = fs st
   \<and> (\<exists>evs. trace (final_state (checkRplanPeerDepsForReact17Prompt st)) = trace st @ evs
          \<and> set evs \<subseteq> insert Ask (insert EndOfInput (range Answer)))"
  "fs (final_state (checkNonRplanPeerDepsForReact17Prompt st)) = fs st
   \<and> (\<exists>evs. trace (final_state (checkNonRplanPeerDepsForReact17Prompt st)) = trace st @ evs
          \<and> set evs \<subseteq> insert Ask (insert EndOfInput (range Answer)))"
  using confirm_footprint
  by (auto simp: checkRplanPeerDepsForReact17Prompt_def
      checkNonRplanPeerDepsForReact17Prompt_def loadPackageJson_def
      split: manifest_file.splits)

section \<open>Invariants of the Node 22 migration\<close>

lemma runMigration_triple:
  assumes "triple I (verifyNodeCompatibility major) I E"
    and "triple I updateNodeVersionInPackageJson I E"
    and "triple I (updateNodeVersionInGitHubActions rwYaml) I E"
    and "triple I (updateTypesNode sh) I E"
    and "triple I (installDependencies sh) I E"
    and "triple I (updateRplanDependency sh) I E"
    and "triple I (checkAndUpdateDockerfiles rwDocker) I E"
  shows "triple I (runMigration sh rwYaml rwDocker major) I E"
  unfolding runMigration_def
  by (intro triple_seq [where Q = I] assms)

lemma runCommand_allOk: "triple allOk (runCommand sh c) allOk nonzero"
  by (auto simp: triple_def runCommand_def exec_def allOk_def nonzero_def
      split: prod.splits bool.splits)

lemma verify_allOk: "triple allOk (verifyNodeCompatibility major) allOk nonzero"
  by (auto simp: triple_def verifyNodeCompatibility_def allOk_def nonzero_def)

lemma updatePackageJson_allOk: "triple allOk updateNodeVersionInPackageJson allOk nonzero"
  by (auto simp: triple_def updateNodeVersionInPackageJson_def allOk_def nonzero_def Let_def
      split: manifest_file.splits)

lemma writesOf_allOk [simp]:
  "Exec c ok \<notin> set (writesOf rw file)" "EndOfInput \<notin> set (writesOf rw file)"
  by (auto simp: writesOf_def split: if_splits)

lemma updateGitHub_allOk: "triple allOk (updateNodeVersionInGitHubActions rw) allOk nonzero"
  by (auto simp: triple_def updateNodeVersionInGitHubActions_def allOk_def nonzero_def
      split: option.splits)

lemma updateTypesNode_allOk: "triple allOk (updateTypesNode sh) allOk nonzero"
  using runCommand_allOk [of sh "''npm install --save-dev @types/node@22''"]
  by (auto simp: triple_def updateTypesNode_def split: manifest_file.splits option.splits)

lemma install_allOk: "triple allOk (installDependencies sh) allOk nonzero"
  unfolding installDependencies_def by (rule runCommand_allOk)

lemma question_allOk:
  "question st = (Got a, s) \<Longrightarrow> allOk (trace st) \<Longrightarrow> allOk (trace s)"
  "question st = (Closed, s) \<Longrightarrow> allOk (trace st) \<Longrightarrow> nonzero (Exited 0) (trace s)"
  "question st = (Silent, s) \<Longrightarrow> allOk (trace st) \<Longrightarrow> nonzero Blocked (trace s)"
  by (auto simp: question_def allOk_def nonzero_def split: input.splits)

lemma updateRplan_allOk: "triple allOk (updateRplanDependency sh) allOk nonzero"
proof -
  have two: "triple allOk (\<lambda>s. andThen (runCommand sh c s) (runCommand sh c')) allOk nonzero"
    for c c'
    by (rule triple_seq [OF runCommand_allOk runCommand_allOk])
  show ?thesis
    unfolding triple_def
  proof (intro allI impI)
    fix st :: state
    assume ok: "allOk (trace st)"
    obtain a s where q: "question st = (a, s)" by (cases "question st")
    show "case updateRplanDependency sh st of Ret s \<Rightarrow> allOk (trace s)
          | End out s \<Rightarrow> nonzero out (trace s)"
    proof (cases a)
      case (Got answer)
      with q ok have "allOk (trace s)" by (auto dest: question_allOk(1))
      with q Got two show ?thesis
        unfolding updateRplanDependency_def triple_def by auto
    next
      case Closed
      with q ok show ?thesis
        unfolding updateRplanDependency_def by (auto dest: question_allOk(2))
    next
      case Silent
      with q ok show ?thesis
        unfolding updateRplanDependency_def by (auto dest: question_allOk(3))
    qed
  qed
qed

lemma dockerfiles_allOk: "triple allOk (checkAndUpdateDockerfiles rw) allOk nonzero"
  by (auto simp: triple_def checkAndUpdateDockerfiles_def allOk_def Let_def)

lemma runMigration_allOk:
  "triple allOk (runMigration sh rwYaml rwDocker major) allOk nonzero"
  by (intro runMigration_triple verify_allOk updatePackageJson_allOk updateGitHub_allOk
      updateTypesNode_allOk install_allOk updateRplan_allOk dockerfiles_allOk)

section \<open>Evaluating runs\<close>

lemma ex_coreUpdated:
  "coreUpdated ex_pkg =
     \<lparr>dependencies = Some
        [(''react'', ''^18.3.1''), (''react-dom'', ''^18.3.1''), (''@rplan/ui'', ''1.0.0''),
         (''widget-lib'', ''2.0.0''), (''left-pad'', ''1.3.0'')],
      devDependencies = Some [(''@testing-library/react'', ''^14.0.0'')],
      peerDependencies = None,
      engines = None\<rparr>"
  by (simp add: coreUpdated_def TARGET_VERSIONS_def updateAllGroups_def updateDeps_def ex_pkg_def)

lemma ex_peersSynced:
  "peersSynced (coreUpdated ex_pkg) =
     \<lparr>dependencies = Some
        [(''react'', ''^18.3.1''), (''react-dom'', ''^18.3.1''), (''@rplan/ui'', ''1.0.0''),
         (''widget-lib'', ''2.0.0''), (''left-pad'', ''1.3.0'')],
      devDependencies = Some [(''@testing-library/react'', ''^14.0.0'')],
      peerDependencies = Some [],
      engines = None\<rparr>"
  by (simp add: ex_coreUpdated peersSynced_def spread_def syncOne_def)

lemma ex_changed: "peersSynced (coreUpdated ex_pkg) \<noteq> ex_pkg"
  by (simp only: ex_peersSynced) (simp add: ex_pkg_def)

lemma ex_rplanIssues: "rplanIssues (peersSynced (coreUpdated ex_pkg)) ex_modules = []"
  by (simp add: ex_peersSynced rplanIssues_def rplanDeps_def spread_def
      inspectDep_def ex_modules_def)

lemma ex_nonRplanIssues:
  "nonRplanIssues (peersSynced (coreUpdated ex_pkg)) ex_modules
     = [Issue ''widget-lib'' ''react'' ''^17.0.0'']"
  by (simp add: ex_peersSynced nonRplanIssues_def nonRplanDeps_def spread_def
      inspectDep_def ex_modules_def core_def ignored_def ignoreWarningsFor_def)

lemma not_affirmative_n: "\<not> affirmative (map of_char ''n'')"
  by (simp add: affirmative_def trim_def isWhiteSpace_def matches_ci_def)

lemmas flow_defs = migrate_def ensureNCU_def exec_def stepBox_def updateCoreReactDeps_def
  loadPackageJson_def savePackageJson_def updateRplanDepsWithNCU_def
  syncRplanPeerDepsToInstalled_def checkRplanPeerDepsForReact17Prompt_def
  checkNonRplanPeerDepsForReact17Prompt_def confirm_def promptContinue_def question_def
  npmInstall_def start_def typed_def

lemma run_ex_n:
  "migrate ex_shell (start ex_fs (typed ''n'' Idle))
     = End (Exited 1)
        \<lparr>fs = ex_fs\<lparr>manifest := Parsed (peersSynced (coreUpdated ex_pkg))\<rparr>, stdin = Idle,
         trace = [Step ''Starting React migration script'', Step ''Check ncu (npm-check-updates)'',
           Exec ''ncu -v'' True, Step ''Update core React dependencies'',
           WriteManifest (coreUpdated ex_pkg), Step ''Update @rplan/* dependencies'',
           Exec ncu_rplan_cmd True,
           Step ''Sync @rplan/* peerDependencies to installed versions'',
           WriteManifest (peersSynced (coreUpdated ex_pkg)),
           Step ''Check @rplan/* peerDependencies for React 17'',
           Step ''Check non-@rplan peerDependencies for React 17'', Ask,
           Answer (map of_char ''n'')]\<rparr>"
  using ex_rplanIssues ex_nonRplanIssues not_affirmative_n
  by (simp add: flow_defs ex_shell_def ex_fs_def)

lemma run_ex_eof:
  "migrate ex_shell (start ex_fs Eof)
     = End (Exited 0)
        \<lparr>fs = ex_fs\<lparr>manifest := Parsed (peersSynced (coreUpdated ex_pkg))\<rparr>, stdin = Eof,
         trace = [Step ''Starting React migration script'', Step ''Check ncu (npm-check-updates)'',
           Exec ''ncu -v'' True, Step ''Update core React dependencies'',
           WriteManifest (coreUpdated ex_pkg), Step ''Update @rplan/* dependencies'',
           Exec ncu_rplan_cmd True,
           Step ''Sync @rplan/* peerDependencies to installed versions'',
           WriteManifest (peersSynced (coreUpdated ex_pkg)),
           Step ''Check @rplan/* peerDependencies for React 17'',
           Step ''Check non-@rplan peerDependencies for React 17'', Ask, EndOfInput]\<rparr>"
  using ex_rplanIssues ex_nonRplanIssues
  by (simp add: flow_defs ex_shell_def ex_fs_def)

lemma core_coreUpdated:
  "coreUpdated core_pkg =
     \<lparr>dependencies = Some [(''react'', ''^18.3.1''), (''react-dom'', ''^18.3.1'')],
      devDependencies = None,
      peerDependencies = None,
      engines = None\<rparr>"
  by (simp add: coreUpdated_def TARGET_VERSIONS_def updateAllGroups_def updateDeps_def
      core_pkg_def)

lemma core_peersSynced:
  "peersSynced (coreUpdated core_pkg) =
     \<lparr>dependencies = Some [(''react'', ''^18.3.1''), (''react-dom'', ''^18.3.1'')],
      devDependencies = None,
      peerDependencies = Some [],
      engines = None\<rparr>"
  by (simp add: core_coreUpdated peersSynced_def spread_def syncOne_def)

lemma core_issues:
  "rplanIssues (peersSynced (coreUpdated core_pkg)) core_modules = []"
  "nonRplanIssues (peersSynced (coreUpdated core_pkg)) core_modules = []"
  by (simp_all add: core_peersSynced rplanIssues_def rplanDeps_def nonRplanIssues_def
      nonRplanDeps_def spread_def core_def)

lemma run_core:
  "migrate ex_shell (start core_fs Idle)
     = Ret \<lparr>fs = core_fs\<lparr>manifest := Parsed (peersSynced (coreUpdated core_pkg))\<rparr>,
         stdin = Idle,
         trace = [Step ''Starting React migration script'',
           Step ''Check ncu (npm-check-updates)'', Exec ''ncu -v'' True,
           Step ''Update core React dependencies'', WriteManifest (coreUpdated core_pkg),
           Step ''Update @rplan/* dependencies'', Exec ncu_rplan_cmd True,
           Step ''Sync @rplan/* peerDependencies to installed versions'',
           WriteManifest (peersSynced (coreUpdated core_pkg)),
           Step ''Check @rplan/* peerDependencies for React 17'',
           Step ''Check non-@rplan peerDependencies for React 17'',
           Step ''Install dependencies (npm install)'', Exec ''npm install'' True,
           Step ''Migration Complete'']\<rparr>"
  using core_issues by (simp add: flow_defs ex_shell_def core_fs_def)

lemmas node_defs = runMigration_def verifyNodeCompatibility_def
  updateNodeVersionInPackageJson_def updateNodeVersionInGitHubActions_def updateTypesNode_def
  installDependencies_def runCommand_def exec_def updateRplanDependency_def question_def
  isYes_def toLowerCase_def checkAndUpdateDockerfiles_def start_def typed_def

lemma quiet_coreUpdated:
  "coreUpdated quiet_pkg =
     \<lparr>dependencies = Some
        [(''react'', ''^18.3.1''), (''@rplan/ui'', ''1.0.0''), (''@rplan/gone'', ''2.0.0''),
         (''left-pad'', ''1.3.0''), (''broken-lib'', ''0.1.0'')],
      devDependencies = None,
      peerDependencies = None,
      engines = None\<rparr>"
  by (simp add: coreUpdated_def TARGET_VERSIONS_def updateAllGroups_def updateDeps_def
      quiet_pkg_def)

lemma quiet_peersSynced:
  "peersSynced (coreUpdated quiet_pkg) =
     \<lparr>dependencies = Some
        [(''react'', ''^18.3.1''), (''@rplan/ui'', ''1.0.0''), (''@rplan/gone'', ''2.0.0''),
         (''left-pad'', ''1.3.0''), (''broken-lib'', ''0.1.0'')],
      devDependencies = None,
      peerDependencies = Some [],
      engines = None\<rparr>"
  by (simp add: quiet_coreUpdated peersSynced_def spread_def syncOne_def)

lemma quiet_issues:
  "rplanIssues (peersSynced (coreUpdated quiet_pkg)) quiet_modules = []"
  "nonRplanIssues (peersSynced (coreUpdated quiet_pkg)) quiet_modules = []"
  by (simp_all add: quiet_peersSynced rplanIssues_def rplanDeps_def nonRplanIssues_def
      nonRplanDeps_def spread_def inspectDep_def quiet_modules_def core_def ignored_def
      ignoreWarningsFor_def)

lemma run_quiet:
  "migrate ex_shell (start quiet_fs Idle)
     = Ret \<lparr>fs = quiet_fs\<lparr>manifest := Parsed (peersSynced (coreUpdated quiet_pkg))\<rparr>,
         stdin = Idle,
         trace = [Step ''Starting React migration script'',
           Step ''Check ncu (npm-check-updates)'', Exec ''ncu -v'' True,
           Step ''Update core React dependencies'', WriteManifest (coreUpdated quiet_pkg),
           Step ''Update @rplan/* dependencies'', Exec ncu_rplan_cmd True,
           Step ''Sync @rplan/* peerDependencies to installed versions'',
           WriteManifest (peersSynced (coreUpdated quiet_pkg)),
           Step ''Check @rplan/* peerDependencies for React 17'',
           Step ''Check non-@rplan peerDependencies for React 17'',
           Step ''Install dependencies (npm install)'', Exec ''npm install'' True,
           Step ''Migration Complete'']\<rparr>"
  using quiet_issues by (simp add: flow_defs ex_shell_def quiet_fs_def)

lemma run_quiet_probe:
  "migrate probe_shell (start quiet_fs Idle)
     = Ret \<lparr>fs = quiet_fs\<lparr>manifest := Parsed (peersSynced (coreUpdated quiet_pkg))\<rparr>,
         stdin = Idle,
         trace = [Step ''Starting React migration script'',
           Step ''Check ncu (npm-check-updates)'', Exec ''ncu -v'' False,
           Exec ''npm install -g npm-check-updates'' True,
           Step ''Update core React dependencies'', WriteManifest (coreUpdated quiet_pkg),
           Step ''Update @rplan/* dependencies'', Exec ncu_rplan_cmd True,
           Step ''Sync @rplan/* peerDependencies to installed versions'',
           WriteManifest (peersSynced (coreUpdated quiet_pkg)),
           Step ''Check @rplan/* peerDependencies for React 17'',
           Step ''Check non-@rplan peerDependencies for React 17'',
           Step ''Install dependencies (npm install)'', Exec ''npm install'' True,
           Step ''Migration Complete'']\<rparr>"
  using quiet_issues by (simp add: flow_defs probe_shell_def quiet_fs_def ncu_rplan_cmd_def)

lemma run_quiet_offline:
  "migrate offline_shell (start quiet_fs Idle)
     = End (Exited 1)
        \<lparr>fs = quiet_fs\<lparr>manifest := Parsed (peersSynced (coreUpdated quiet_pkg))\<rparr>,
         stdin = Idle,
         trace = [Step ''Starting React migration script'',
           Step ''Check ncu (npm-check-updates)'', Exec ''ncu -v'' True,
           Step ''Update core React dependencies'', WriteManifest (coreUpdated quiet_pkg),
           Step ''Update @rplan/* dependencies'', Exec ncu_rplan_cmd True,
           Step ''Sync @rplan/* peerDependencies to installed versions'',
           WriteManifest (peersSynced (coreUpdated quiet_pkg)),
           Step ''Check @rplan/* peerDependencies for React 17'',
           Step ''Check non-@rplan peerDependencies for React 17'',
           Step ''Install dependencies (npm install)'', Exec ''npm install'' False]\<rparr>"
  using quiet_issues by (simp add: flow_defs offline_shell_def quiet_fs_def ncu_rplan_cmd_def)

lemma run_bare:
  "migrate ex_shell (start bare_fs Idle)
     = End (Exited 1)
        \<lparr>fs = bare_fs, stdin = Idle,
         trace = [Step ''Starting React migration script'',
           Step ''Check ncu (npm-check-updates)'', Exec ''ncu -v'' True,
           Step ''Update core React dependencies'']\<rparr>"
  by (simp add: flow_defs ex_shell_def bare_fs_def)

lemma node_bare_no:
  "runMigration ex_shell id id 22 (start bare_fs (typed ''no'' Idle))
     = Ret \<lparr>fs = bare_fs, stdin = Idle,
         trace = [Exec ''npm install'' True, Ask, Answer (map of_char ''no'')]\<rparr>"
  by (simp add: node_defs ex_shell_def bare_fs_def)

lemma node_bare_blocked:
  "runMigration ex_shell id id 22 (start bare_fs Idle)
     = End Blocked \<lparr>fs = bare_fs, stdin = Idle, trace = [Exec ''npm install'' True, Ask]\<rparr>"
  by (simp add: node_defs ex_shell_def bare_fs_def)

lemma node_bare_offline:
  "runMigration offline_shell id id 22 (start bare_fs Idle)
     = End (Exited 1) \<lparr>fs = bare_fs, stdin = Idle, trace = [Exec ''npm install'' False]\<rparr>"
  by (simp add: node_defs offline_shell_def bare_fs_def)

lemma node_bare_eof:
  "runMigration ex_shell id id 22 (start bare_fs Eof)
     = End (Exited 0)
        \<lparr>fs = bare_fs, stdin = Eof, trace = [Exec ''npm install'' True, Ask, EndOfInput]\<rparr>"
  by (simp add: node_defs ex_shell_def bare_fs_def)

section \<open>The compatibility gates: classification\<close>

text \<open>
  An incompatible verdict of a gate is an entry of its list \<^verbatim>\<open>issues\<close>; a dependency
  that is inspected and pushes no issue is compatible; one whose installed manifest is
  missing or throws is unknown.
\<close>

text \<open>
  Claim C1, as stated, fails at the anchor packages themselves. A project depends on
  \<open>react\<close> and \<open>react-dom\<close>; the installed \<open>react-dom\<close> asks for the peer
  \<open>react 17.0.2\<close>, a range that contains \<open>17.\<close> and does not contain \<open>18\<close>. Neither gate
  examines \<open>react-dom\<close>: the managed gate looks at the names that start with \<open>@rplan/\<close>,
  the non-managed gate leaves out \<open>react\<close>, \<open>react-dom\<close> and \<open>@testing-library/react\<close>.
  With the manifest that the script itself has written, both gates find no issue, and the
  run completes with exit code 0 without a question.
\<close>

theorem anchor_package_not_classified:
  "''react-dom'' \<in> fst ` set (orEmpty (dependencies core_pkg))
   \<and> core_modules ''react-dom'' = Installed (Some [(''react'', ''17.0.2'')])
   \<and> regex_test ''17.'' ''17.0.2'' \<and> \<not> regex_test ''18'' ''17.0.2''
   \<and> rplanIssues (peersSynced (coreUpdated core_pkg)) core_modules = []
   \<and> nonRplanIssues (peersSynced (coreUpdated core_pkg)) core_modules = []
   \<and> manifest (fs (final_state (migrate ex_shell (start core_fs Idle))))
       = Parsed (peersSynced (coreUpdated core_pkg))
   \<and> exitOf (migrate ex_shell (start core_fs Idle)) = Exited 0
   \<and> Ask \<notin> set (trace (final_state (migrate ex_shell (start core_fs Idle))))"
  by (simp only: run_core core_issues) (simp add: core_pkg_def core_modules_def)

text \<open>
  Claim C1, amended to the dependencies that a gate examines and that are not on the
  allow-list. The managed gate examines the names declared in \<^verbatim>\<open>dependencies\<close> or
  \<^verbatim>\<open>devDependencies\<close> that start with \<open>@rplan/\<close>: such a dependency \<open>dep\<close> is reported for
  the anchor \<open>key\<close> with the range \<open>r\<close> exactly when its installed manifest declares the
  peer requirement \<open>r\<close> on \<open>key\<close>, \<open>key\<close> is \<open>react\<close> or \<open>react-dom\<close>, and \<open>r\<close>
  contains the substring \<open>17.\<close> and does not contain the substring \<open>18\<close>. The
  non-managed gate examines the other declared names except \<open>react\<close>, \<open>react-dom\<close> and
  \<open>@testing-library/react\<close>: for every such dependency other than the allow-listed
  \<open>react-test-renderer\<close> the same holds, with \<open>@testing-library/react\<close> as a third
  anchor. Nothing is said here about \<open>react-test-renderer\<close>.
\<close>

theorem gates_classify:
  "(Issue dep key r \<in> set (rplanIssues p nm)
      \<longleftrightarrow> (dep \<in> fst ` set (orEmpty (dependencies p))
            \<or> dep \<in> fst ` set (orEmpty (devDependencies p)))
          \<and> prefix ''@rplan/'' dep
          \<and> key \<in> {''react'', ''react-dom''}
          \<and> (\<exists>peers. nm dep = Installed peers \<and> map_of (orEmpty peers) key = Some r)
          \<and> sublist ''17.'' r \<and> \<not> sublist ''18'' r)
   \<and> (dep \<noteq> ''react-test-renderer'' \<longrightarrow>
        (Issue dep key r \<in> set (nonRplanIssues p nm)
          \<longleftrightarrow> (dep \<in> fst ` set (orEmpty (dependencies p))
                \<or> dep \<in> fst ` set (orEmpty (devDependencies p)))
              \<and> \<not> prefix ''@rplan/'' dep
              \<and> dep \<notin> {''react'', ''react-dom'', ''@testing-library/react''}
              \<and> key \<in> {''react'', ''react-dom'', ''@testing-library/react''}
              \<and> (\<exists>peers. nm dep = Installed peers \<and> map_of (orEmpty peers) key = Some r)
              \<and> sublist ''17.'' r \<and> \<not> sublist ''18'' r))"
proof -
  have "\<not> ignored p dep" if "dep \<noteq> ''react-test-renderer''"
    using that by (simp add: ignored_def ignoreWarningsFor_def)
  then show ?thesis
    by (simp only: rplanIssues_iff nonRplanIssues_iff rplanDeps_iff nonRplanDeps_iff) blast
qed

theorem gates_classify_witness:
  "''widget-lib'' \<noteq> ''react-test-renderer''
   \<and> Issue ''widget-lib'' ''react'' ''^17.0.0'' \<in> set (nonRplanIssues ex_pkg ex_modules)
   \<and> ''widget-lib'' \<in> fst ` set (orEmpty (dependencies ex_pkg))
   \<and> \<not> prefix ''@rplan/'' ''widget-lib''
   \<and> ex_modules ''widget-lib'' = Installed (Some [(''react'', ''^17.0.0'')])
   \<and> sublist ''17.'' ''^17.0.0'' \<and> \<not> sublist ''18'' ''^17.0.0''
   \<and> Issue ''@rplan/ui'' ''react'' ''^17.0.0 || ^18.0.0'' \<notin> set (rplanIssues ex_pkg ex_modules)
   \<and> ''@rplan/ui'' \<in> fst ` set (orEmpty (dependencies ex_pkg))
   \<and> prefix ''@rplan/'' ''@rplan/ui''
   \<and> ex_modules ''@rplan/ui'' = Installed (Some [(''react'', ''^17.0.0 || ^18.0.0'')])
   \<and> sublist ''18'' ''^17.0.0 || ^18.0.0''"
  using gates_classify [of "''widget-lib''" "''react''" "''^17.0.0''" ex_pkg ex_modules]
    gates_classify [of "''@rplan/ui''" "''react''" "''^17.0.0 || ^18.0.0''" ex_pkg ex_modules]
  by (simp add: regex_test_sublist [symmetric] startsWith_prefix [symmetric] nonRplanDeps_def
      rplanDeps_def nonRplanIssues_def rplanIssues_def ex_pkg_def ex_modules_def spread_def
      core_def ignored_def ignoreWarningsFor_def declared18_def inspectDep_def)

text \<open>
  Claim C3 fails on the code at a manifest the script itself produces. \<open>TARGET_VERSIONS\<close>
  sets \<open>react-test-renderer\<close> to \<open>^18.3.1\<close>; the test \<^verbatim>\<open>/^18\./\<close> of the allow-list
  wants the declared range to start with \<open>18.\<close>, which \<open>^18.3.1\<close> does not. The
  dependency, declared at React 18, is not ignored: with the installed manifest of
  version 17 it is reported, the operator is asked, and the answer \<open>n\<close> ends the run
  with exit code 1. More generally, in a manifest that \<^verbatim>\<open>updateCoreReactDeps\<close> and
  \<^verbatim>\<open>syncRplanPeerDepsToInstalled\<close> have rewritten, the entry of \<open>react-test-renderer\<close>
  is \<open>^18.3.1\<close>, empty or missing, so that no dependency is ignored there.
\<close>

theorem allow_list_misses_caret_range:
  "\<not> ignored (peersSynced (coreUpdated p)) dep
   \<and> map_of TARGET_VERSIONS ''react-test-renderer'' = Some ''^18.3.1''
   \<and> \<not> ignored caret_pkg ''react-test-renderer''
   \<and> nonRplanIssues caret_pkg stale_modules
       = [Issue ''react-test-renderer'' ''react'' ''17.0.2'']
   \<and> checkNonRplanPeerDepsForReact17Prompt (start caret_fs (typed ''n'' Idle))
       = End (Exited 1)
           \<lparr>fs = caret_fs, stdin = Idle, trace = [Ask, Answer (map of_char ''n'')]\<rparr>"
  using ignored_after_update [of p dep]
  by (simp add: nonRplanDeps_def nonRplanIssues_def caret_pkg_def stale_modules_def spread_def
      core_def ignored_def ignoreWarningsFor_def declared18_def TARGET_VERSIONS_def
      inspectDep_def checkNonRplanPeerDepsForReact17Prompt_def loadPackageJson_def
      caret_fs_def start_def typed_def confirm_def promptContinue_def question_def
      affirmative_def trim_def isWhiteSpace_def matches_ci_def)

text \<open>
  Claim C10. The candidates of the non-managed gate are never \<open>react\<close>, \<open>react-dom\<close> or
  \<open>@testing-library/react\<close> and never start with \<open>@rplan/\<close>; so no issue that the gate
  reports is about such a package.
\<close>

theorem nonRplan_gate_excludes_core_and_managed:
  "(\<forall>dep \<in> set (nonRplanDeps p).
       dep \<notin> {''react'', ''react-dom'', ''@testing-library/react''} \<and> \<not> prefix ''@rplan/'' dep)
   \<and> (\<forall>i \<in> set (nonRplanIssues p nm).
       issue_name i \<notin> {''react'', ''react-dom'', ''@testing-library/react''}
       \<and> \<not> prefix ''@rplan/'' (issue_name i))"
proof -
  have deps: "dep \<notin> {''react'', ''react-dom'', ''@testing-library/react''} \<and> \<not> prefix ''@rplan/'' dep"
    if "dep \<in> set (nonRplanDeps p)" for dep
    using that by (simp add: nonRplanDeps_def core_def startsWith_prefix)
  show ?thesis
    using deps issue_name_nonRplan [of _ p nm] by blast
qed

theorem nonRplan_gate_excludes_core_and_managed_witness:
  "nonRplanDeps ex_pkg = [''widget-lib'', ''left-pad'']
   \<and> ''widget-lib'' \<notin> {''react'', ''react-dom'', ''@testing-library/react''}
   \<and> \<not> prefix ''@rplan/'' ''widget-lib''
   \<and> nonRplanIssues ex_pkg ex_modules = [Issue ''widget-lib'' ''react'' ''^17.0.0'']
   \<and> issue_name (Issue ''widget-lib'' ''react'' ''^17.0.0'')
       \<notin> {''react'', ''react-dom'', ''@testing-library/react''}"
  using nonRplan_gate_excludes_core_and_managed [of ex_pkg ex_modules]
  by (simp add: nonRplanDeps_def nonRplanIssues_def ex_pkg_def ex_modules_def spread_def
      core_def ignored_def ignoreWarningsFor_def declared18_def inspectDep_def)

section \<open>The compatibility gates: decision\<close>

text \<open>
  Claim C2. A dependency whose installed manifest is missing or throws is never reported
  by either gate. When every candidate of a gate is such a dependency, is ignored, or
  is inspected without an issue, the gate returns in the state it was called in: nothing
  was asked, nothing was read from the terminal, and the run goes on.
\<close>

theorem unknown_never_blocks:
  assumes "manifest (fs st) = Parsed p" and "nm = node_modules (fs st)"
  shows "(\<forall>dep. nm dep = NoFile \<or> nm dep = Throws \<longrightarrow>
            (\<forall>i \<in> set (rplanIssues p nm) \<union> set (nonRplanIssues p nm). issue_name i \<noteq> dep))
    \<and> ((\<forall>dep \<in> set (rplanDeps p).
            nm dep = NoFile \<or> nm dep = Throws \<or> inspectDep nm [''react'', ''react-dom''] dep = [])
         \<longrightarrow> checkRplanPeerDepsForReact17Prompt st = Ret st)
    \<and> ((\<forall>dep \<in> set (nonRplanDeps p).
            nm dep = NoFile \<or> nm dep = Throws \<or> ignored p dep \<or> inspectDep nm core dep = [])
         \<longrightarrow> checkNonRplanPeerDepsForReact17Prompt st = Ret st)"
proof -
  have a: "issue_name i \<noteq> dep"
    if "nm dep = NoFile \<or> nm dep = Throws"
      and "i \<in> set (rplanIssues p nm) \<union> set (nonRplanIssues p nm)" for dep i
    using that issue_name_rplan [of i p nm] issue_name_nonRplan [of i p nm] by auto
  have b: "rplanIssues p nm = []"
    if "\<forall>dep \<in> set (rplanDeps p).
          nm dep = NoFile \<or> nm dep = Throws \<or> inspectDep nm [''react'', ''react-dom''] dep = []"
    using that inspectDep_skipped [of nm _ "[''react'', ''react-dom'']"]
    unfolding rplanIssues_def by auto
  have c: "nonRplanIssues p nm = []"
    if "\<forall>dep \<in> set (nonRplanDeps p).
          nm dep = NoFile \<or> nm dep = Throws \<or> ignored p dep \<or> inspectDep nm core dep = []"
    using that inspectDep_skipped [of nm _ core]
    unfolding nonRplanIssues_def by auto
  show ?thesis
    using a b c gate_loaded [OF assms(1)] assms(2) by (auto simp: confirm_Nil)
qed

theorem unknown_never_blocks_witness:
  "manifest (fs (start quiet_fs Idle)) = Parsed quiet_pkg
   \<and> rplanDeps quiet_pkg = [''@rplan/ui'', ''@rplan/gone'']
   \<and> nonRplanDeps quiet_pkg = [''left-pad'', ''broken-lib'']
   \<and> quiet_modules ''@rplan/gone'' = NoFile
   \<and> quiet_modules ''left-pad'' = NoFile
   \<and> quiet_modules ''broken-lib'' = Throws
   \<and> inspectDep quiet_modules [''react'', ''react-dom''] ''@rplan/ui'' = []
   \<and> checkRplanPeerDepsForReact17Prompt (start quiet_fs Idle) = Ret (start quiet_fs Idle)
   \<and> checkNonRplanPeerDepsForReact17Prompt (start quiet_fs Idle) = Ret (start quiet_fs Idle)"
  using unknown_never_blocks [of "start quiet_fs Idle" quiet_pkg quiet_modules]
  by (simp add: start_def quiet_fs_def quiet_pkg_def quiet_modules_def rplanDeps_def
      nonRplanDeps_def spread_def core_def inspectDep_def)

text \<open>
  Claim C4. When a gate has found an issue and the operator answers, the gate ends the
  process with exit code 1 unless the answer is affirmative, and returns when it is; in
  both cases the question was asked and the answer read. The answer is the first line of
  the data that the input delivers to the question. An answer is affirmative exactly
  when, trimmed and in lower case, it is \<open>y\<close> or \<open>yes\<close>; the empty answer, \<open>n\<close> and
  \<open>no\<close> are not.
\<close>

theorem abort_unless_affirmative:
  assumes "manifest (fs st) = Parsed p" and "stdin st = Data answer others rest"
    and "st' = st\<lparr>stdin := rest, trace := trace st @ [Ask, Answer answer]\<rparr>"
  shows "(rplanIssues p (node_modules (fs st)) \<noteq> [] \<longrightarrow>
            checkRplanPeerDepsForReact17Prompt st
              = (if affirmative answer then Ret st' else End (Exited 1) st'))
    \<and> (nonRplanIssues p (node_modules (fs st)) \<noteq> [] \<longrightarrow>
            checkNonRplanPeerDepsForReact17Prompt st
              = (if affirmative answer then Ret st' else End (Exited 1) st'))
    \<and> (affirmative answer
         \<longleftrightarrow> toLowerCase (trim answer) \<in> {map of_char ''y'', map of_char ''yes''})
    \<and> \<not> affirmative [] \<and> \<not> affirmative (map of_char ''n'') \<and> \<not> affirmative (map of_char ''no'')"
proof -
  have neg: "\<not> affirmative [] \<and> \<not> affirmative (map of_char ''n'') \<and> \<not> affirmative (map of_char ''no'')"
    by (simp add: affirmative_def trim_def isWhiteSpace_def matches_ci_def)
  have aff: "affirmative answer
      \<longleftrightarrow> toLowerCase (trim answer) \<in> {map of_char ''y'', map of_char ''yes''}"
    by (rule affirmative_iff)
  have gates: "issues \<noteq> [] \<Longrightarrow>
      confirm issues st = (if affirmative answer then Ret st' else End (Exited 1) st')"
    for issues
    using confirm_answer [OF _ assms(2)] by (simp add: assms(3))
  show ?thesis
    using gate_loaded [OF assms(1)] gates neg aff by presburger
qed

theorem abort_unless_affirmative_witness:
  "manifest (fs (start ex_fs (typed ''no'' Idle))) = Parsed ex_pkg
   \<and> stdin (start ex_fs (typed ''no'' Idle)) = Data (map of_char ''no'') [] Idle
   \<and> nonRplanIssues ex_pkg ex_modules \<noteq> []
   \<and> \<not> affirmative (map of_char ''no'')
   \<and> checkNonRplanPeerDepsForReact17Prompt (start ex_fs (typed ''no'' Idle))
       = End (Exited 1) \<lparr>fs = ex_fs, stdin = Idle, trace = [Ask, Answer (map of_char ''no'')]\<rparr>
   \<and> affirmative (map of_char '' Yes'')
   \<and> checkNonRplanPeerDepsForReact17Prompt (start ex_fs (typed '' Yes'' Idle))
       = Ret \<lparr>fs = ex_fs, stdin = Idle, trace = [Ask, Answer (map of_char '' Yes'')]\<rparr>"
  using abort_unless_affirmative
    [of "start ex_fs (typed ''no'' Idle)" ex_pkg "map of_char ''no''" "[]" Idle
      "\<lparr>fs = ex_fs, stdin = Idle, trace = [Ask, Answer (map of_char ''no'')]\<rparr>"]
    abort_unless_affirmative
    [of "start ex_fs (typed '' Yes'' Idle)" ex_pkg "map of_char '' Yes''" "[]" Idle
      "\<lparr>fs = ex_fs, stdin = Idle, trace = [Ask, Answer (map of_char '' Yes'')]\<rparr>"]
  by (simp add: start_def typed_def ex_fs_def ex_pkg_def ex_modules_def nonRplanDeps_def
      nonRplanIssues_def spread_def core_def ignored_def ignoreWarningsFor_def declared18_def
      inspectDep_def affirmative_def trim_def isWhiteSpace_def matches_ci_def)

text \<open>
  Claim C5. When a gate finds no issue, it returns in the state it was called in: the
  trace has no question and no answer, and the lines of the terminal are all still
  unread.
\<close>

theorem proceed_without_prompt:
  assumes "manifest (fs st) = Parsed p"
  shows "(rplanIssues p (node_modules (fs st)) = [] \<longrightarrow>
            checkRplanPeerDepsForReact17Prompt st = Ret st)
    \<and> (nonRplanIssues p (node_modules (fs st)) = [] \<longrightarrow>
            checkNonRplanPeerDepsForReact17Prompt st = Ret st)"
  using gate_loaded [OF assms] by (simp add: confirm_Nil)

theorem proceed_without_prompt_witness:
  "manifest (fs (start ex_fs (typed ''n'' Idle))) = Parsed ex_pkg
   \<and> rplanIssues ex_pkg (node_modules (fs (start ex_fs (typed ''n'' Idle)))) = []
   \<and> checkRplanPeerDepsForReact17Prompt (start ex_fs (typed ''n'' Idle))
       = Ret (start ex_fs (typed ''n'' Idle))
   \<and> nonRplanIssues quiet_pkg (node_modules (fs (start quiet_fs Idle))) = []
   \<and> checkNonRplanPeerDepsForReact17Prompt (start quiet_fs Idle) = Ret (start quiet_fs Idle)"
  using proceed_without_prompt [of "start ex_fs (typed ''n'' Idle)" ex_pkg]
    proceed_without_prompt [of "start quiet_fs Idle" quiet_pkg]
  by (simp add: start_def typed_def ex_fs_def ex_pkg_def ex_modules_def rplanDeps_def
      rplanIssues_def quiet_fs_def quiet_pkg_def quiet_modules_def nonRplanDeps_def
      nonRplanIssues_def
      spread_def core_def ignored_def ignoreWarningsFor_def inspectDep_def)

section \<open>Manifest edits\<close>

text \<open>
  Claim C9. \<^verbatim>\<open>updateCoreReactDeps\<close> only overwrites entries that exist. For each of the
  groups \<^verbatim>\<open>dependencies\<close>, \<^verbatim>\<open>devDependencies\<close> and \<^verbatim>\<open>peerDependencies\<close>: a group
  that is missing stays missing; the keys of the group and their order are the same
  before and after, so no key is added; an entry whose value changed is one of the four
  target packages, was a key of the group before, and now has the target version; so
  every entry of another name is unchanged. The manifest written is this update of the
  manifest read.
\<close>

theorem updateCoreReactDeps_only_overwrites:
  assumes "sel = dependencies \<or> sel = devDependencies \<or> sel = peerDependencies"
  shows "(sel (coreUpdated p) = None \<longleftrightarrow> sel p = None)
    \<and> map fst (orEmpty (sel (coreUpdated p))) = map fst (orEmpty (sel p))
    \<and> (\<forall>k. map_of (orEmpty (sel (coreUpdated p))) k \<noteq> map_of (orEmpty (sel p)) k
           \<longrightarrow> k \<in> {''react'', ''react-dom'', ''@testing-library/react'', ''react-test-renderer''}
               \<and> k \<in> fst ` set (orEmpty (sel p))
               \<and> map_of (orEmpty (sel (coreUpdated p))) k = map_of TARGET_VERSIONS k)
    \<and> (manifest (fs st) = Parsed p \<longrightarrow>
         updateCoreReactDeps st = Ret (savePackageJson (coreUpdated p) st))"
proof -
  have t: "fst ` set TARGET_VERSIONS
      = {''react'', ''react-dom'', ''@testing-library/react'', ''react-test-renderer''}"
    by (simp add: TARGET_VERSIONS_def)
  have g: "sel (coreUpdated p) = groupUpdated TARGET_VERSIONS (sel p)"
    using assms foldl_groups [of p TARGET_VERSIONS] by (auto simp: coreUpdated_def)
  have c: "map_of (orEmpty (groupUpdated TARGET_VERSIONS (sel p))) k = map_of TARGET_VERSIONS k"
    if "map_of (orEmpty (groupUpdated TARGET_VERSIONS (sel p))) k \<noteq> map_of (orEmpty (sel p)) k" for k
    using that groupUpdated_value [of TARGET_VERSIONS "sel p" k]
    by (simp add: TARGET_VERSIONS_def)
  show ?thesis
    unfolding g
    using groupUpdated_changed [of TARGET_VERSIONS "sel p"] t c
    by (auto simp: groupUpdated_None groupUpdated_keys updateCoreReactDeps_def loadPackageJson_def g)
qed

theorem updateCoreReactDeps_only_overwrites_witness:
  "(dependencies = dependencies \<or> dependencies = devDependencies
      \<or> dependencies = peerDependencies)
   \<and> map_of (orEmpty (dependencies (coreUpdated ex_pkg))) ''react''
       \<noteq> map_of (orEmpty (dependencies ex_pkg)) ''react''
   \<and> ''react'' \<in> fst ` set (orEmpty (dependencies ex_pkg))
   \<and> map_of (orEmpty (dependencies (coreUpdated ex_pkg))) ''react'' = Some ''^18.3.1''
   \<and> map fst (orEmpty (dependencies (coreUpdated ex_pkg)))
       = [''react'', ''react-dom'', ''@rplan/ui'', ''widget-lib'', ''left-pad'']
   \<and> manifest (fs (start ex_fs Idle)) = Parsed ex_pkg
   \<and> updateCoreReactDeps (start ex_fs Idle)
       = Ret (savePackageJson (coreUpdated ex_pkg) (start ex_fs Idle))"
  using updateCoreReactDeps_only_overwrites
    [of dependencies ex_pkg "start ex_fs Idle"]
  by (simp add: ex_pkg_def ex_fs_def start_def coreUpdated_def TARGET_VERSIONS_def
      updateAllGroups_def updateDeps_def)

section \<open>The order of manifest writes and gates\<close>

text \<open>
  Claim C6, as stated, fails. In the run of the React migration on the example project,
  with the answer \<open>n\<close>, the manifest is written twice, by \<^verbatim>\<open>updateCoreReactDeps\<close> and by
  \<^verbatim>\<open>syncRplanPeerDepsToInstalled\<close>, before the first gate starts; the second gate ends
  the run with exit code 1, and the manifest on disk is the rewritten one.
\<close>

theorem manifest_written_before_abort:
  "exitOf (migrate ex_shell (start ex_fs (typed ''n'' Idle))) = Exited 1
   \<and> trace (final_state (migrate ex_shell (start ex_fs (typed ''n'' Idle))))
       = [Step ''Starting React migration script'', Step ''Check ncu (npm-check-updates)'',
         Exec ''ncu -v'' True, Step ''Update core React dependencies'',
         WriteManifest (coreUpdated ex_pkg), Step ''Update @rplan/* dependencies'',
         Exec ncu_rplan_cmd True,
         Step ''Sync @rplan/* peerDependencies to installed versions'',
         WriteManifest (peersSynced (coreUpdated ex_pkg))]
         @ Step ''Check @rplan/* peerDependencies for React 17''
         # [Step ''Check non-@rplan peerDependencies for React 17'', Ask,
          Answer (map of_char ''n'')]
   \<and> manifest (fs (final_state (migrate ex_shell (start ex_fs (typed ''n'' Idle)))))
       = Parsed (peersSynced (coreUpdated ex_pkg))
   \<and> peersSynced (coreUpdated ex_pkg) \<noteq> ex_pkg"
  by (simp only: run_ex_n ex_changed) simp

text \<open>
  Claim C6, amended. In every run of the React migration, where the first gate starts the
  manifest has already been written, and from there on the script does not write it: the
  writes of the manifest all come before the gates. A gate itself leaves the file system
  as it is and only asks and reads on the terminal.
\<close>

theorem manifest_written_before_gates:
  assumes "tr = trace (final_state (migrate sh (start f lines)))"
  shows "(\<forall>pre post. tr = pre @ Step ''Check @rplan/* peerDependencies for React 17'' # post \<longrightarrow>
            (\<exists>d. WriteManifest d \<in> set pre) \<and> (\<forall>e \<in> set post. \<forall>d. e \<noteq> WriteManifest d))
    \<and> fs (final_state (checkRplanPeerDepsForReact17Prompt st)) = fs st
    \<and> (\<exists>evs. trace (final_state (checkRplanPeerDepsForReact17Prompt st)) = trace st @ evs
           \<and> set evs \<subseteq> insert Ask (insert EndOfInput (range Answer)))
    \<and> fs (final_state (checkNonRplanPeerDepsForReact17Prompt st)) = fs st
    \<and> (\<exists>evs. trace (final_state (checkNonRplanPeerDepsForReact17Prompt st)) = trace st @ evs
           \<and> set evs \<subseteq> insert Ask (insert EndOfInput (range Answer)))"
proof -
  have "case migrate sh (start f lines) of Ret s \<Rightarrow> writesPrecede gate1 (trace s)
        | End out s \<Rightarrow> ordered out (trace s)"
    by (rule triple_start [OF migrate_ordered]) (simp add: ungated_def)
  then have "writesPrecede gate1 tr"
    unfolding assms by (cases "migrate sh (start f lines)") (auto simp: ordered_def)
  then have "\<forall>pre post. tr = pre @ Step ''Check @rplan/* peerDependencies for React 17'' # post \<longrightarrow>
      (\<exists>d. WriteManifest d \<in> set pre) \<and> (\<forall>e \<in> set post. \<forall>d. e \<noteq> WriteManifest d)"
    by (simp add: writesPrecede_def gate1_def)
  with gates_footprint [of st] show ?thesis by blast
qed

theorem manifest_written_before_gates_witness:
  "trace (final_state (migrate ex_shell (start ex_fs (typed ''n'' Idle))))
     = [Step ''Starting React migration script'', Step ''Check ncu (npm-check-updates)'',
         Exec ''ncu -v'' True, Step ''Update core React dependencies'',
         WriteManifest (coreUpdated ex_pkg), Step ''Update @rplan/* dependencies'',
         Exec ncu_rplan_cmd True,
         Step ''Sync @rplan/* peerDependencies to installed versions'',
         WriteManifest (peersSynced (coreUpdated ex_pkg))]
       @ Step ''Check @rplan/* peerDependencies for React 17''
       # [Step ''Check non-@rplan peerDependencies for React 17'', Ask,
          Answer (map of_char ''n'')]
   \<and> WriteManifest (coreUpdated ex_pkg) \<in> set
        [Step ''Starting React migration script'', Step ''Check ncu (npm-check-updates)'',
         Exec ''ncu -v'' True, Step ''Update core React dependencies'',
         WriteManifest (coreUpdated ex_pkg), Step ''Update @rplan/* dependencies'',
         Exec ncu_rplan_cmd True,
         Step ''Sync @rplan/* peerDependencies to installed versions'',
         WriteManifest (peersSynced (coreUpdated ex_pkg))]
   \<and> WriteManifest (peersSynced (coreUpdated ex_pkg)) \<notin> set
        [Step ''Check non-@rplan peerDependencies for React 17'', Ask,
          Answer (map of_char ''n'')]"
  using manifest_written_before_gates
    [OF refl, of ex_shell ex_fs "typed ''n'' Idle" "start ex_fs Idle"]
  by (simp only: run_ex_n) simp

section \<open>A missing manifest\<close>

text \<open>
  Claim C7, as stated, fails for the Node 22 migration: in a directory without
  \<^verbatim>\<open>package.json\<close> the run goes on after the error message, executes \<^verbatim>\<open>npm install\<close>,
  asks its question and ends with exit code 0.
\<close>

theorem node_migration_continues_without_manifest:
  "manifest bare_fs = Absent
   \<and> exitOf (runMigration ex_shell id id 22 (start bare_fs (typed ''no'' Idle))) = Exited 0
   \<and> trace (final_state (runMigration ex_shell id id 22 (start bare_fs (typed ''no'' Idle))))
       = [Exec ''npm install'' True, Ask, Answer (map of_char ''no'')]"
  by (simp only: node_bare_no) (simp add: bare_fs_def)

text \<open>
  Claim C7, amended. In the React migration a missing manifest is fatal wherever the
  manifest is loaded: \<^verbatim>\<open>loadPackageJson\<close> exits with code 1, and each of its four callers
  ends the process in the state it was called in. The first load comes after the check
  for \<^verbatim>\<open>ncu\<close>: when that check returns and the manifest is missing, the run ends there
  with exit code 1, having printed the title of the step and done nothing else. In the
  Node 22 migration a missing manifest is not fatal: \<^verbatim>\<open>updateNodeVersionInPackageJson\<close> and
  \<^verbatim>\<open>updateTypesNode\<close> return without any effect, and the run is that of the remaining
  steps.
\<close>

theorem missing_manifest:
  assumes "manifest (fs st) = Absent"
  shows "loadPackageJson st = Inl (Exited 1)
    \<and> updateCoreReactDeps st = End (Exited 1) st
    \<and> syncRplanPeerDepsToInstalled st = End (Exited 1) st
    \<and> checkRplanPeerDepsForReact17Prompt st = End (Exited 1) st
    \<and> checkNonRplanPeerDepsForReact17Prompt st = End (Exited 1) st
    \<and> (\<forall>s0 s1. ensureNCU sh
                 (stepBox ''Check ncu (npm-check-updates)''
                   (stepBox ''Starting React migration script'' s0)) = Ret s1
              \<and> manifest (fs s1) = Absent \<longrightarrow>
          migrate sh s0 = End (Exited 1) (stepBox ''Update core React dependencies'' s1))
    \<and> updateNodeVersionInPackageJson st = Ret st
    \<and> updateTypesNode sh st = Ret st
    \<and> (22 \<le> major \<longrightarrow>
          runMigration sh rwYaml rwDocker major st
            = andThen (updateNodeVersionInGitHubActions rwYaml st)
                (\<lambda>s. andThen (installDependencies sh s)
                (\<lambda>s. andThen (updateRplanDependency sh s)
                (\<lambda>s. checkAndUpdateDockerfiles rwDocker s))))"
proof -
  have load: "loadPackageJson s = Inl (Exited 1)" if "manifest (fs s) = Absent" for s
    using that by (simp add: loadPackageJson_def)
  have react: "migrate sh s0 = End (Exited 1) (stepBox ''Update core React dependencies'' s1)"
    if "ensureNCU sh
          (stepBox ''Check ncu (npm-check-updates)''
            (stepBox ''Starting React migration script'' s0)) = Ret s1"
      and "manifest (fs s1) = Absent" for s0 s1
    using that by (simp add: migrate_def updateCoreReactDeps_def loadPackageJson_def stepBox_def)
  have types: "updateTypesNode sh s = Ret s" if "manifest (fs s) = Absent" for s
    using that by (simp add: updateTypesNode_def)
  have node: "runMigration sh rwYaml rwDocker major st
      = andThen (updateNodeVersionInGitHubActions rwYaml st)
          (\<lambda>s. andThen (installDependencies sh s)
          (\<lambda>s. andThen (updateRplanDependency sh s)
          (\<lambda>s. checkAndUpdateDockerfiles rwDocker s)))"
    if "22 \<le> major"
  proof (cases "updateNodeVersionInGitHubActions rwYaml st")
    case (Ret s)
    then have "manifest (fs s) = Absent"
      using assms
      by (auto simp: updateNodeVersionInGitHubActions_def split: option.splits if_splits)
    with Ret that assms show ?thesis
      by (simp add: runMigration_def verifyNodeCompatibility_def
          updateNodeVersionInPackageJson_def types)
  next
    case (End out s)
    with that assms show ?thesis
      by (simp add: runMigration_def verifyNodeCompatibility_def
          updateNodeVersionInPackageJson_def)
  qed
  show ?thesis
    using assms load [OF assms] react types [OF assms] node
    by (simp add: updateCoreReactDeps_def syncRplanPeerDepsToInstalled_def
        checkRplanPeerDepsForReact17Prompt_def checkNonRplanPeerDepsForReact17Prompt_def
        updateNodeVersionInPackageJson_def)
qed

theorem missing_manifest_witness:
  "manifest (fs (start bare_fs Idle)) = Absent
   \<and> ensureNCU ex_shell
        (stepBox ''Check ncu (npm-check-updates)''
          (stepBox ''Starting React migration script'' (start bare_fs Idle)))
       = Ret \<lparr>fs = bare_fs, stdin = Idle,
              trace = [Step ''Starting React migration script'',
                Step ''Check ncu (npm-check-updates)'', Exec ''ncu -v'' True]\<rparr>
   \<and> migrate ex_shell (start bare_fs Idle)
       = End (Exited 1)
           \<lparr>fs = bare_fs, stdin = Idle,
            trace = [Step ''Starting React migration script'',
              Step ''Check ncu (npm-check-updates)'', Exec ''ncu -v'' True,
              Step ''Update core React dependencies'']\<rparr>
   \<and> (22 :: nat) \<le> 22
   \<and> updateNodeVersionInPackageJson (start bare_fs Idle) = Ret (start bare_fs Idle)
   \<and> updateTypesNode ex_shell (start bare_fs Idle) = Ret (start bare_fs Idle)
   \<and> runMigration ex_shell id id 22 (start bare_fs (typed ''no'' Idle))
       = Ret \<lparr>fs = bare_fs, stdin = Idle,
              trace = [Exec ''npm install'' True, Ask, Answer (map of_char ''no'')]\<rparr>"
  using missing_manifest [of "start bare_fs Idle" ex_shell 22 id id]
    missing_manifest [of "start bare_fs (typed ''no'' Idle)" ex_shell 22 id id]
  by (simp only: run_bare node_bare_no)
    (simp add: ensureNCU_def exec_def stepBox_def start_def ex_shell_def bare_fs_def
      updateNodeVersionInPackageJson_def)

section \<open>Exit codes\<close>

text \<open>
  Claim C8, as stated, fails in two ways. An external command may fail in a run that ends
  with exit code 0: the probe \<^verbatim>\<open>ncu -v\<close> of \<^verbatim>\<open>ensureNCU\<close> fails, \<^verbatim>\<open>npm-check-updates\<close> is
  installed, and the run completes. And a run may end with exit code 0 without completing:
  the second gate asks its question, the input is at its end, and the process ends there
  with exit code 0, before \<^verbatim>\<open>npm install\<close>. The same happens at the question of the
  Node 22 migration.
\<close>

theorem exit_0_after_failure_or_incomplete:
  "exitOf (migrate probe_shell (start quiet_fs Idle)) = Exited 0
   \<and> Exec ''ncu -v'' False \<in> set (trace (final_state (migrate probe_shell (start quiet_fs Idle))))
   \<and> exitOf (migrate ex_shell (start ex_fs Eof)) = Exited 0
   \<and> Step ''Migration Complete''
       \<notin> set (trace (final_state (migrate ex_shell (start ex_fs Eof))))
   \<and> Exec ''npm install'' True
       \<notin> set (trace (final_state (migrate ex_shell (start ex_fs Eof))))
   \<and> runMigration ex_shell id id 22 (start bare_fs Eof)
       = End (Exited 0)
           \<lparr>fs = bare_fs, stdin = Eof, trace = [Exec ''npm install'' True, Ask, EndOfInput]\<rparr>"
  by (simp only: run_quiet_probe run_ex_eof node_bare_eof) (simp add: ncu_rplan_cmd_def)

text \<open>
  Claim C8, amended. A run of the React migration runs to the end of the script exactly
  when it has printed its last step title, \<open>Migration Complete\<close>, and then its exit code is
  0; a run in which the input does not end at a question has exit code 0 only then. A run
  ends with exit code 1 when an answer read from the operator is not affirmative, when
  \<^verbatim>\<open>npm install\<close> fails, and when the global installation of \<^verbatim>\<open>npm-check-updates\<close> fails.
  A run of the Node 22 migration in which the input does not end at a question has exit
  code 0 exactly when the script ran to its end, and every run of it ends with exit code 1
  when an external command fails. Nothing is said here about the exit code of a run in
  which the input ends at a question.
\<close>

theorem exit_codes:
  assumes "r = migrate sh (start f lines)"
    and "rn = runMigration sh' rwYaml rwDocker major (start f' lines')"
  shows "((\<exists>s. r = Ret s) \<longleftrightarrow> Step ''Migration Complete'' \<in> set (trace (final_state r)))
    \<and> ((\<exists>s. r = Ret s) \<longrightarrow> exitOf r = Exited 0)
    \<and> (EndOfInput \<notin> set (trace (final_state r)) \<longrightarrow>
          (exitOf r = Exited 0 \<longleftrightarrow> Step ''Migration Complete'' \<in> set (trace (final_state r))))
    \<and> (\<forall>a. Answer a \<in> set (trace (final_state r)) \<and> \<not> affirmative a \<longrightarrow> exitOf r = Exited 1)
    \<and> (Exec ''npm install'' False \<in> set (trace (final_state r)) \<longrightarrow> exitOf r = Exited 1)
    \<and> (Exec ''npm install -g npm-check-updates'' False \<in> set (trace (final_state r))
         \<longrightarrow> exitOf r = Exited 1)
    \<and> (EndOfInput \<notin> set (trace (final_state rn)) \<longrightarrow>
          (exitOf rn = Exited 0 \<longleftrightarrow> (\<exists>s. rn = Ret s)))
    \<and> (\<forall>c. Exec c False \<in> set (trace (final_state rn)) \<longrightarrow> exitOf rn = Exited 1)"
proof -
  have a: "case r of Ret s \<Rightarrow> completed (trace s) | End out s \<Rightarrow> failed out (trace s)"
    unfolding assms(1) by (rule triple_start [OF migrate_incomplete]) (simp add: incomplete_def)
  have b: "case r of Ret s \<Rightarrow> clean (trace s) | End out s \<Rightarrow> cleanOrExit1 out (trace s)"
    unfolding assms(1) by (rule triple_start [OF migrate_clean]) (simp add: clean_def)
  have c: "case rn of Ret s \<Rightarrow> allOk (trace s) | End out s \<Rightarrow> nonzero out (trace s)"
    unfolding assms(2) by (rule triple_start [OF runMigration_allOk]) (simp add: allOk_def)
  show ?thesis
  proof (intro conjI)
    show "(\<exists>s. r = Ret s) \<longleftrightarrow> Step ''Migration Complete'' \<in> set (trace (final_state r))"
      using a by (cases r) (auto simp: failed_def completed_def)
    show "(\<exists>s. r = Ret s) \<longrightarrow> exitOf r = Exited 0"
      by auto
    show "EndOfInput \<notin> set (trace (final_state r)) \<longrightarrow>
        (exitOf r = Exited 0 \<longleftrightarrow> Step ''Migration Complete'' \<in> set (trace (final_state r)))"
      using a by (cases r) (auto simp: failed_def completed_def)
    show "\<forall>a. Answer a \<in> set (trace (final_state r)) \<and> \<not> affirmative a \<longrightarrow> exitOf r = Exited 1"
      using b by (cases r) (auto simp: clean_def cleanOrExit1_def)
    show "Exec ''npm install'' False \<in> set (trace (final_state r)) \<longrightarrow> exitOf r = Exited 1"
      using b by (cases r) (auto simp: clean_def cleanOrExit1_def)
    show "Exec ''npm install -g npm-check-updates'' False \<in> set (trace (final_state r))
        \<longrightarrow> exitOf r = Exited 1"
      using b by (cases r) (auto simp: clean_def cleanOrExit1_def)
    show "EndOfInput \<notin> set (trace (final_state rn)) \<longrightarrow>
        (exitOf rn = Exited 0 \<longleftrightarrow> (\<exists>s. rn = Ret s))"
      using c by (cases rn) (auto simp: nonzero_def)
    show "\<forall>c. Exec c False \<in> set (trace (final_state rn)) \<longrightarrow> exitOf rn = Exited 1"
      using c by (cases rn) (auto simp: nonzero_def allOk_def)
  qed
qed

theorem exit_codes_witness:
  "exitOf (migrate ex_shell (start ex_fs (typed ''n'' Idle))) = Exited 1
   \<and> EndOfInput \<notin> set (trace (final_state (migrate ex_shell (start ex_fs (typed ''n'' Idle)))))
   \<and> Answer (map of_char ''n'')
       \<in> set (trace (final_state (migrate ex_shell (start ex_fs (typed ''n'' Idle)))))
   \<and> \<not> affirmative (map of_char ''n'')
   \<and> exitOf (migrate ex_shell (start quiet_fs Idle)) = Exited 0
   \<and> EndOfInput \<notin> set (trace (final_state (migrate ex_shell (start quiet_fs Idle))))
   \<and> Step ''Migration Complete''
       \<in> set (trace (final_state (migrate ex_shell (start quiet_fs Idle))))
   \<and> Exec ''npm install'' False
       \<in> set (trace (final_state (migrate offline_shell (start quiet_fs Idle))))
   \<and> exitOf (migrate offline_shell (start quiet_fs Idle)) = Exited 1
   \<and> EndOfInput
       \<notin> set (trace (final_state (runMigration ex_shell id id 22 (start bare_fs (typed ''no'' Idle)))))
   \<and> exitOf (runMigration ex_shell id id 22 (start bare_fs (typed ''no'' Idle))) = Exited 0
   \<and> Exec ''npm install'' False
       \<in> set (trace (final_state (runMigration offline_shell id id 22 (start bare_fs Idle))))
   \<and> exitOf (runMigration offline_shell id id 22 (start bare_fs Idle)) = Exited 1"
  using exit_codes [OF refl refl, of ex_shell ex_fs "typed ''n'' Idle"
      offline_shell id id 22 bare_fs Idle]
    exit_codes [OF refl refl, of ex_shell quiet_fs Idle
      ex_shell id id 22 bare_fs "typed ''no'' Idle"]
    exit_codes [OF refl refl, of offline_shell quiet_fs Idle offline_shell id id 22 bare_fs Idle]
  by (simp only: run_ex_n run_quiet run_quiet_offline node_bare_offline node_bare_no)
    (simp add: not_affirmative_n [simplified] ncu_rplan_cmd_def)

end
